theory Spec2Isabelle
  imports Main "HOL-Library.Word"
begin

section \<open>jsonq: querying a decoded JSON tree\<close>

text \<open>
  A shallow embedding of \<^verbatim>\<open>jsonq.go\<close>. A Go function returning \<^verbatim>\<open>(T, error)\<close> is a
  function into a pair of the value and an optional error, since the source hands back a
  value next to the error and the inline accessors return that value. A run-time panic
  (an index out of range, a nil pointer dereference, an explicit \<^verbatim>\<open>panic(err)\<close>) is the
  outcome \<open>Panic\<close>. The platform is taken to be a 64-bit one: Go's \<^verbatim>\<open>int\<close> has 64 bits.
\<close>

subsection \<open>Dynamic values\<close>

text \<open>A \<^verbatim>\<open>float64\<close> is carried as its IEEE 754 binary64 bit pattern.\<close>

type_synonym float64 = "64 word"

text \<open>
  What an \<^verbatim>\<open>interface{}\<close> can hold, as far as the type switches of the source tell the
  cases apart. A pointer is an option, \<open>None\<close> the nil pointer. \<open>VNumber\<close> is
  \<^verbatim>\<open>json.Number\<close>, a string type. \<open>VOther\<close> stands for a value of any type that no
  switch of the source names.
\<close>

datatype "value" =
    VNil
  | VBool bool
  | VBoolPtr "bool option"
  | VFloat64 float64
  | VFloat64Ptr "float64 option"
  | VInt "64 word"
  | VIntPtr "64 word option"
  | VInt32 "32 word"
  | VInt32Ptr "32 word option"
  | VInt64 "64 word"
  | VUint64 "64 word"
  | VString string
  | VStringPtr "string option"
  | VNumber string
  | VObject "string \<Rightarrow> value option"
  | VObjectPtr "(string \<Rightarrow> value option) option"
  | VArray "value list"
  | VArrayPtr "value list option"
  | VOther

subsection \<open>Errors, panics, outcomes\<close>

text \<open>The two errors of package \<^verbatim>\<open>strconv\<close>.\<close>

datatype num_error = ErrSyntax | ErrRange

text \<open>
  One constructor for each message the source formats, carrying what the message prints:
  \<^item> \<open>NotAnArray blob\<close>: \<^verbatim>\<open>Array index on non-array %v\<close>;
  \<^item> \<open>IndexOutOfBounds index blob\<close>: \<^verbatim>\<open>Array index %d on array %v out of bounds\<close>;
  \<^item> \<open>NotAnObject query blob\<close>: \<^verbatim>\<open>Object lookup "%s" on non-object %v\<close>;
  \<^item> \<open>KeyNotFound blob query\<close>: \<^verbatim>\<open>Object %v does not contain field %s\<close>;
  \<^item> \<open>NilValue segment\<close>: \<^verbatim>\<open>Nil value found at %s\<close>;
  \<^item> \<open>TypeMismatch shape val\<close>: \<^verbatim>\<open>Expected ... value for <shape>, got "%v"\<close>;
  \<^item> \<open>NumError text e\<close>: the \<^verbatim>\<open>*strconv.NumError\<close> of \<^verbatim>\<open>json.Number\<close>'s conversions.
\<close>

datatype error =
    NotAnArray "value"
  | IndexOutOfBounds int "value"
  | NotAnObject string "value"
  | KeyNotFound "value" string
  | NilValue string
  | TypeMismatch string "value"
  | NumError string num_error

datatype error_kind =
  KNotAnArray | KIndexOutOfBounds | KNotAnObject | KKeyNotFound | KNilValue | KTypeMismatch
  | KNumError

fun kind :: "error \<Rightarrow> error_kind" where
  "kind (NotAnArray b) = KNotAnArray"
| "kind (IndexOutOfBounds i b) = KIndexOutOfBounds"
| "kind (NotAnObject q b) = KNotAnObject"
| "kind (KeyNotFound b q) = KKeyNotFound"
| "kind (NilValue q) = KNilValue"
| "kind (TypeMismatch t v) = KTypeMismatch"
| "kind (NumError t e) = KNumError"

text \<open>
  \<open>IndexOutOfRange i n\<close> is Go's run-time error for \<^verbatim>\<open>xs[i]\<close> with \<open>i\<close> outside
  \<open>[0, n)\<close>; \<open>ErrorPanic e\<close> is \<^verbatim>\<open>panic(err)\<close>.
\<close>

datatype panic = IndexOutOfRange int nat | NilDereference | ErrorPanic error

datatype 'a outcome = Panic panic | Return 'a

type_synonym 'a go_result = "('a \<times> error option) outcome"

subsection \<open>The standard library functions the resolver calls\<close>

text \<open>
  \<^verbatim>\<open>strconv.ParseUint(s, 10, 64)\<close>, after Go's \<^verbatim>\<open>strconv/atoi.go\<close>: every byte must be a
  decimal digit; the loop leaves with a range error as soon as the number no longer fits
  64 bits, before it looks at the bytes that follow.
\<close>

definition isDigit :: "char \<Rightarrow> bool" where
  "isDigit c = (48 \<le> (of_char c :: nat) \<and> (of_char c :: nat) \<le> 57)"

definition digitVal :: "char \<Rightarrow> nat" where
  "digitVal c = (of_char c :: nat) - 48"

definition maxUint64 :: nat where
  "maxUint64 = 18446744073709551615"

fun ParseUint_loop :: "nat \<Rightarrow> string \<Rightarrow> nat \<times> num_error option" where
  "ParseUint_loop n [] = (n, None)"
| "ParseUint_loop n (c # cs) =
     (if \<not> isDigit c then (0, Some ErrSyntax)
      else if n \<ge> maxUint64 div 10 + 1 then (maxUint64, Some ErrRange)
      else if n * 10 + digitVal c > maxUint64 then (maxUint64, Some ErrRange)
      else ParseUint_loop (n * 10 + digitVal c) cs)"

definition ParseUint :: "string \<Rightarrow> nat \<times> num_error option" where
  "ParseUint s = (if s = [] then (0, Some ErrSyntax) else ParseUint_loop 0 s)"

text \<open>
  \<^verbatim>\<open>strconv.ParseInt(s, 10, 64)\<close>: an optional sign, then \<open>ParseUint\<close>. On a range error
  the value returned with the error is the nearest bound.
\<close>

definition ParseInt :: "string \<Rightarrow> int \<times> num_error option" where
  "ParseInt s =
     (if s = [] then (0, Some ErrSyntax)
      else
        let neg = (hd s = CHR ''-'');
            s1 = (if hd s = CHR ''+'' \<or> hd s = CHR ''-'' then tl s else s);
            (un, err) = ParseUint s1
        in if err = Some ErrSyntax then (0, Some ErrSyntax)
           else if \<not> neg \<and> un \<ge> 2 ^ 63 then (2 ^ 63 - 1, Some ErrRange)
           else if neg \<and> un > 2 ^ 63 then (- (2 ^ 63), Some ErrRange)
           else (if neg then - int un else int un, None))"

text \<open>
  \<^verbatim>\<open>strconv.Atoi(s)\<close> is, in the words of its documentation, equivalent to
  \<^verbatim>\<open>ParseInt(s, 10, 0)\<close> converted to type \<^verbatim>\<open>int\<close>.
\<close>

definition Atoi :: "string \<Rightarrow> int \<times> num_error option" where
  "Atoi s = ParseInt s"

text \<open>
  \<^verbatim>\<open>strings.IndexAny(s, chars)\<close>: the index of the first byte of \<open>s\<close> that is in
  \<open>chars\<close>, or \<open>-1\<close>. The three characters the source asks for are ASCII, and no byte of a
  multi-byte UTF-8 sequence is ASCII, so looking at bytes finds what looking at runes finds.
\<close>

fun IndexAny_from :: "nat \<Rightarrow> string \<Rightarrow> string \<Rightarrow> int" where
  "IndexAny_from i [] chars = - 1"
| "IndexAny_from i (c # cs) chars =
     (if c \<in> set chars then int i else IndexAny_from (Suc i) cs chars)"

definition IndexAny :: "string \<Rightarrow> string \<Rightarrow> int" where
  "IndexAny s chars = IndexAny_from 0 s chars"

text \<open>
  \<^verbatim>\<open>strings.FieldsFunc(s, f)\<close>: the maximal runs of bytes that do not satisfy \<open>f\<close>; empty
  fields are dropped. \<open>cur\<close> is the field being read.
\<close>

fun FieldsFunc_from :: "(char \<Rightarrow> bool) \<Rightarrow> string \<Rightarrow> string \<Rightarrow> string list" where
  "FieldsFunc_from f cur [] = (if cur = [] then [] else [cur])"
| "FieldsFunc_from f cur (c # cs) =
     (if f c then (if cur = [] then FieldsFunc_from f [] cs else cur # FieldsFunc_from f [] cs)
      else FieldsFunc_from f (cur @ [c]) cs)"

definition FieldsFunc :: "string \<Rightarrow> (char \<Rightarrow> bool) \<Rightarrow> string list" where
  "FieldsFunc s f = FieldsFunc_from f [] s"

subsection \<open>The path resolver\<close>

text \<open>
  \<^verbatim>\<open>query(blob, query)\<close>: one field or index. The bound check of the source is
  \<^verbatim>\<open>len(blob) > index\<close> alone, so a negative index reaches \<^verbatim>\<open>blob[index]\<close>, where Go
  panics.
\<close>

definition query :: "value \<Rightarrow> string \<Rightarrow> value go_result" where
  "query blob q =
     (case Atoi q of
        (index, None) \<Rightarrow>
          (case blob of
             VArray xs \<Rightarrow>
               if int (length xs) > index
               then (if index < 0 then Panic (IndexOutOfRange index (length xs))
                     else Return (xs ! nat index, None))
               else Return (VNil, Some (IndexOutOfBounds index blob))
           | _ \<Rightarrow> Return (VNil, Some (NotAnArray blob)))
      | (index, Some e) \<Rightarrow>
          (case blob of
             VObject m \<Rightarrow>
               (case m q of
                  None \<Rightarrow> Return (VNil, Some (KeyNotFound blob q))
                | Some val \<Rightarrow> Return (val, None))
           | _ \<Rightarrow> Return (VNil, Some (NotAnObject q blob))))"

text \<open>The \<^verbatim>\<open>for _, q := range terms\<close> loop of \<^verbatim>\<open>rquery\<close>.\<close>

fun walk :: "value \<Rightarrow> string list \<Rightarrow> value go_result" where
  "walk val [] = Return (val, None)"
| "walk val (q # qs) =
     (case query val q of
        Panic p \<Rightarrow> Panic p
      | Return (v, Some err) \<Rightarrow> Return (VNil, Some err)
      | Return (v, None) \<Rightarrow> walk v qs)"

definition isDelim :: "char \<Rightarrow> bool" where
  "isDelim c = (c = CHR ''.'' \<or> c = CHR ''['' \<or> c = CHR '']'')"

definition terms_of :: "string list \<Rightarrow> string list" where
  "terms_of s =
     (if length s = 1 \<and> IndexAny (s ! 0) ''.[]'' \<noteq> - 1 then FieldsFunc (s ! 0) isDelim else s)"

text \<open>
  \<^verbatim>\<open>rquery(blob, s...)\<close>. The message of the nil check reads \<^verbatim>\<open>s[len(s)-1]\<close>, which is
  an index out of range when no segment was given.
\<close>

definition rquery :: "value \<Rightarrow> string list \<Rightarrow> value go_result" where
  "rquery blob s =
     (case walk blob (terms_of s) of
        Panic p \<Rightarrow> Panic p
      | Return (val, Some err) \<Rightarrow> Return (VNil, Some err)
      | Return (val, None) \<Rightarrow>
          (case val of
             VNil \<Rightarrow>
               (if s = [] then Panic (IndexOutOfRange (- 1) 0)
                else Return (VNil, Some (NilValue (last s))))
           | _ \<Rightarrow> Return (val, None)))"

subsection \<open>The type coercer\<close>

text \<open>
  \<^verbatim>\<open>int64(f)\<close> for a \<^verbatim>\<open>float64\<close>: the value truncated towards zero, read off the bit
  pattern (sign, 11 bits of biased exponent, 52 bits of fraction). Where the truncated value
  has no \<^verbatim>\<open>int64\<close> (a NaN, an infinity, a magnitude too large) Go leaves the result to
  the implementation; the model returns \<open>int64_indefinite\<close>, what amd64 produces.
\<close>

definition int64_indefinite :: "64 word" where
  "int64_indefinite = 0x8000000000000000"

definition int64_of_float64 :: "float64 \<Rightarrow> 64 word" where
  "int64_of_float64 b =
     (let neg = bit b 63;
          e = unat (take_bit 11 (drop_bit 52 b));
          f = unat (take_bit 52 b);
          m = (if e = 0 then 0
               else if e \<ge> 1075 then (2 ^ 52 + f) * 2 ^ (e - 1075)
               else (2 ^ 52 + f) div 2 ^ (1075 - e))
      in if e = 2047 then int64_indefinite
         else if neg then (if m \<le> 2 ^ 63 then - word_of_nat m else int64_indefinite)
         else (if m < 2 ^ 63 then word_of_nat m else int64_indefinite))"

text \<open>
  The conversions into \<^verbatim>\<open>float64\<close> that \<^verbatim>\<open>floatFromInterface\<close> calls belong to the
  language and to \<^verbatim>\<open>strconv\<close>; they are parameters of the model.
\<close>

record float_ops =
  ParseFloat :: "string \<Rightarrow> float64 \<times> num_error option"
  float64_of_int64 :: "64 word \<Rightarrow> float64"
  float64_of_uint64 :: "64 word \<Rightarrow> float64"

fun stringFromInterface :: "value \<Rightarrow> string go_result" where
  "stringFromInterface (VString x) = Return (x, None)"
| "stringFromInterface (VStringPtr None) = Return ([], None)"
| "stringFromInterface (VStringPtr (Some x)) = Return (x, None)"
| "stringFromInterface val = Return ([], Some (TypeMismatch ''String'' val))"

fun boolFromInterface :: "value \<Rightarrow> bool go_result" where
  "boolFromInterface (VBool x) = Return (x, None)"
| "boolFromInterface (VBoolPtr None) = Panic NilDereference"
| "boolFromInterface (VBoolPtr (Some x)) = Return (x, None)"
| "boolFromInterface val = Return (False, Some (TypeMismatch ''Bool'' val))"

fun floatFromInterface :: "float_ops \<Rightarrow> value \<Rightarrow> float64 go_result" where
  "floatFromInterface fo (VFloat64 x) = Return (x, None)"
| "floatFromInterface fo (VInt x) = Return (float64_of_int64 fo x, None)"
| "floatFromInterface fo (VString x) =
     (case ParseFloat fo x of
        (fval, None) \<Rightarrow> Return (fval, None)
      | (fval, Some e) \<Rightarrow> Return (0, Some (TypeMismatch ''Float'' (VString x))))"
| "floatFromInterface fo (VNumber x) =
     (case ParseFloat fo x of
        (fval, None) \<Rightarrow> Return (fval, None)
      | (fval, Some e) \<Rightarrow> Return (fval, Some (NumError x e)))"
| "floatFromInterface fo (VFloat64Ptr None) = Panic NilDereference"
| "floatFromInterface fo (VFloat64Ptr (Some x)) = Return (x, None)"
| "floatFromInterface fo (VIntPtr None) = Panic NilDereference"
| "floatFromInterface fo (VIntPtr (Some x)) = Return (float64_of_int64 fo x, None)"
| "floatFromInterface fo (VStringPtr None) = Panic NilDereference"
| "floatFromInterface fo (VStringPtr (Some x)) =
     (case ParseFloat fo x of
        (fval, None) \<Rightarrow> Return (fval, None)
      | (fval, Some e) \<Rightarrow> Return (0, Some (TypeMismatch ''Float'' (VStringPtr (Some x)))))"
| "floatFromInterface fo (VInt64 x) = Return (float64_of_int64 fo x, None)"
| "floatFromInterface fo (VUint64 x) = Return (float64_of_uint64 fo x, None)"
| "floatFromInterface fo val = Return (0, Some (TypeMismatch ''Float'' val))"

text \<open>
  The result is an \<^verbatim>\<open>int64\<close>, a 64-bit word read as two's complement (\<open>sint\<close>).
  A \<^verbatim>\<open>uint64\<close> is converted by keeping its bits, an \<^verbatim>\<open>int32\<close> by sign extension.
\<close>

fun intFromInterface :: "value \<Rightarrow> 64 word go_result" where
  "intFromInterface (VFloat64 x) = Return (int64_of_float64 x, None)"
| "intFromInterface (VString x) =
     (case ParseInt x of
        (i, None) \<Rightarrow> Return (word_of_int i, None)
      | (i, Some e) \<Rightarrow> Return (0, Some (TypeMismatch ''Int'' (VString x))))"
| "intFromInterface (VInt x) = Return (x, None)"
| "intFromInterface (VNumber x) =
     (case ParseInt x of
        (i, None) \<Rightarrow> Return (word_of_int i, None)
      | (i, Some e) \<Rightarrow> Return (word_of_int i, Some (NumError x e)))"
| "intFromInterface (VInt32 x) = Return (scast x, None)"
| "intFromInterface (VIntPtr None) = Panic NilDereference"
| "intFromInterface (VIntPtr (Some x)) = Return (x, None)"
| "intFromInterface (VInt32Ptr None) = Panic NilDereference"
| "intFromInterface (VInt32Ptr (Some x)) = Return (scast x, None)"
| "intFromInterface (VFloat64Ptr None) = Panic NilDereference"
| "intFromInterface (VFloat64Ptr (Some x)) = Return (int64_of_float64 x, None)"
| "intFromInterface (VStringPtr None) = Panic NilDereference"
| "intFromInterface (VStringPtr (Some x)) =
     (case ParseInt x of
        (i, None) \<Rightarrow> Return (word_of_int i, None)
      | (i, Some e) \<Rightarrow> Return (0, Some (TypeMismatch ''Int'' (VStringPtr (Some x)))))"
| "intFromInterface (VInt64 x) = Return (x, None)"
| "intFromInterface (VUint64 x) = Return (x, None)"
| "intFromInterface val = Return (0, Some (TypeMismatch ''Int'' val))"

fun objectFromInterface :: "value \<Rightarrow> (string \<Rightarrow> value option) go_result" where
  "objectFromInterface (VObject m) = Return (m, None)"
| "objectFromInterface (VObjectPtr None) = Panic NilDereference"
| "objectFromInterface (VObjectPtr (Some m)) = Return (m, None)"
| "objectFromInterface val = Return (Map.empty, Some (TypeMismatch ''Object'' val))"

fun arrayFromInterface :: "value \<Rightarrow> value list go_result" where
  "arrayFromInterface (VArray xs) = Return (xs, None)"
| "arrayFromInterface (VArrayPtr None) = Panic NilDereference"
| "arrayFromInterface (VArrayPtr (Some xs)) = Return (xs, None)"
| "arrayFromInterface val = Return ([], Some (TypeMismatch ''Array'' val))"

subsection \<open>Query contexts and the fallible accessors\<close>

record JsonQuery =
  blob :: "value"
  SingleValuePanicOnError :: bool

definition NewQuery :: "value \<Rightarrow> JsonQuery" where
  "NewQuery data = \<lparr>blob = data, SingleValuePanicOnError = False\<rparr>"

definition Get :: "JsonQuery \<Rightarrow> string list \<Rightarrow> value go_result" where
  "Get j s = rquery (blob j) s"

definition Bool :: "JsonQuery \<Rightarrow> string list \<Rightarrow> bool go_result" where
  "Bool j s =
     (case rquery (blob j) s of
        Panic p \<Rightarrow> Panic p
      | Return (val, Some err) \<Rightarrow> Return (False, Some err)
      | Return (val, None) \<Rightarrow> boolFromInterface val)"

definition Float :: "float_ops \<Rightarrow> JsonQuery \<Rightarrow> string list \<Rightarrow> float64 go_result" where
  "Float fo j s =
     (case rquery (blob j) s of
        Panic p \<Rightarrow> Panic p
      | Return (val, Some err) \<Rightarrow> Return (0, Some err)
      | Return (val, None) \<Rightarrow> floatFromInterface fo val)"

text \<open>
  \<^verbatim>\<open>Int\<close> of the source (the name is taken in HOL); \<^verbatim>\<open>int(i)\<close> changes nothing where
  \<^verbatim>\<open>int\<close> has 64 bits.
\<close>

definition Int' :: "JsonQuery \<Rightarrow> string list \<Rightarrow> 64 word go_result" where
  "Int' j s =
     (case rquery (blob j) s of
        Panic p \<Rightarrow> Panic p
      | Return (val, Some err) \<Rightarrow> Return (0, Some err)
      | Return (val, None) \<Rightarrow>
          (case intFromInterface val of
             Panic p \<Rightarrow> Panic p
           | Return (i, err) \<Rightarrow> Return (i, err)))"

definition Int64 :: "JsonQuery \<Rightarrow> string list \<Rightarrow> 64 word go_result" where
  "Int64 j s =
     (case rquery (blob j) s of
        Panic p \<Rightarrow> Panic p
      | Return (val, Some err) \<Rightarrow> Return (0, Some err)
      | Return (val, None) \<Rightarrow> intFromInterface val)"

definition String :: "JsonQuery \<Rightarrow> string list \<Rightarrow> string go_result" where
  "String j s =
     (case rquery (blob j) s of
        Panic p \<Rightarrow> Panic p
      | Return (val, Some err) \<Rightarrow> Return ([], Some err)
      | Return (val, None) \<Rightarrow> stringFromInterface val)"

definition Object :: "JsonQuery \<Rightarrow> string list \<Rightarrow> (string \<Rightarrow> value option) go_result" where
  "Object j s =
     (case rquery (blob j) s of
        Panic p \<Rightarrow> Panic p
      | Return (val, Some err) \<Rightarrow> Return (Map.empty, Some err)
      | Return (val, None) \<Rightarrow> objectFromInterface val)"

definition Array :: "JsonQuery \<Rightarrow> string list \<Rightarrow> value list go_result" where
  "Array j s =
     (case rquery (blob j) s of
        Panic p \<Rightarrow> Panic p
      | Return (val, Some err) \<Rightarrow> Return ([], Some err)
      | Return (val, None) \<Rightarrow> arrayFromInterface val)"

definition Interface :: "JsonQuery \<Rightarrow> string list \<Rightarrow> value go_result" where
  "Interface j s =
     (case rquery (blob j) s of
        Panic p \<Rightarrow> Panic p
      | Return (val, Some err) \<Rightarrow> Return (VNil, Some err)
      | Return (val, None) \<Rightarrow> Return (val, None))"

definition Exists :: "JsonQuery \<Rightarrow> string list \<Rightarrow> bool outcome" where
  "Exists j s =
     (case Interface j s of
        Panic p \<Rightarrow> Panic p
      | Return (val, Some err) \<Rightarrow> Return False
      | Return (val, None) \<Rightarrow> Return True)"

text \<open>A \<^verbatim>\<open>*JsonQuery\<close> result is an option, \<open>None\<close> the nil pointer.\<close>

definition Query :: "JsonQuery \<Rightarrow> string list \<Rightarrow> JsonQuery option go_result" where
  "Query j s =
     (case Object j s of
        Panic p \<Rightarrow> Panic p
      | Return (obj, Some err) \<Rightarrow> Return (None, Some err)
      | Return (obj, None) \<Rightarrow>
          Return (Some \<lparr>blob = VObject obj,
                        SingleValuePanicOnError = SingleValuePanicOnError j\<rparr>, None))"

subsection \<open>Typed arrays\<close>

text \<open>
  The loop shared, word for word, by the six \<^verbatim>\<open>ArrayOf...\<close> accessors:
  \<^verbatim>\<open>for index, val := range array { toReturn[index], err = conv(val); if err != nil { return toReturn, err } }\<close>.
  \<open>toReturn\<close> starts as \<^verbatim>\<open>make([]T, len(array))\<close>, every entry the zero value.
\<close>

fun coerceEach ::
  "(value \<Rightarrow> 'a go_result) \<Rightarrow> 'a list \<Rightarrow> nat \<Rightarrow> value list \<Rightarrow> 'a list go_result" where
  "coerceEach conv toReturn index [] = Return (toReturn, None)"
| "coerceEach conv toReturn index (val # rest) =
     (case conv val of
        Panic p \<Rightarrow> Panic p
      | Return (x, Some err) \<Rightarrow> Return (toReturn[index := x], Some err)
      | Return (x, None) \<Rightarrow> coerceEach conv (toReturn[index := x]) (Suc index) rest)"

definition ArrayOfStrings :: "JsonQuery \<Rightarrow> string list \<Rightarrow> string list go_result" where
  "ArrayOfStrings j s =
     (case Array j s of
        Panic p \<Rightarrow> Panic p
      | Return (array, Some err) \<Rightarrow> Return ([], Some err)
      | Return (array, None) \<Rightarrow>
          coerceEach stringFromInterface (replicate (length array) []) 0 array)"

definition ArrayOfInts :: "JsonQuery \<Rightarrow> string list \<Rightarrow> 64 word list go_result" where
  "ArrayOfInts j s =
     (case Array j s of
        Panic p \<Rightarrow> Panic p
      | Return (array, Some err) \<Rightarrow> Return ([], Some err)
      | Return (array, None) \<Rightarrow>
          coerceEach intFromInterface (replicate (length array) 0) 0 array)"

definition ArrayOfFloats :: "float_ops \<Rightarrow> JsonQuery \<Rightarrow> string list \<Rightarrow> float64 list go_result" where
  "ArrayOfFloats fo j s =
     (case Array j s of
        Panic p \<Rightarrow> Panic p
      | Return (array, Some err) \<Rightarrow> Return ([], Some err)
      | Return (array, None) \<Rightarrow>
          coerceEach (floatFromInterface fo) (replicate (length array) 0) 0 array)"

definition ArrayOfBools :: "JsonQuery \<Rightarrow> string list \<Rightarrow> bool list go_result" where
  "ArrayOfBools j s =
     (case Array j s of
        Panic p \<Rightarrow> Panic p
      | Return (array, Some err) \<Rightarrow> Return ([], Some err)
      | Return (array, None) \<Rightarrow>
          coerceEach boolFromInterface (replicate (length array) False) 0 array)"

definition ArrayOfObjects :: "JsonQuery \<Rightarrow> string list \<Rightarrow> (string \<Rightarrow> value option) list go_result" where
  "ArrayOfObjects j s =
     (case Array j s of
        Panic p \<Rightarrow> Panic p
      | Return (array, Some err) \<Rightarrow> Return ([], Some err)
      | Return (array, None) \<Rightarrow>
          coerceEach objectFromInterface (replicate (length array) Map.empty) 0 array)"

definition ArrayOfArrays :: "JsonQuery \<Rightarrow> string list \<Rightarrow> value list list go_result" where
  "ArrayOfArrays j s =
     (case Array j s of
        Panic p \<Rightarrow> Panic p
      | Return (array, Some err) \<Rightarrow> Return ([], Some err)
      | Return (array, None) \<Rightarrow>
          coerceEach arrayFromInterface (replicate (length array) []) 0 array)"

definition wrapEach :: "JsonQuery \<Rightarrow> value list \<Rightarrow> JsonQuery list" where
  "wrapEach j val =
     map (\<lambda>v. \<lparr>blob = v, SingleValuePanicOnError = SingleValuePanicOnError j\<rparr>) val"

definition ArrayOfQuery :: "JsonQuery \<Rightarrow> string list \<Rightarrow> JsonQuery list go_result" where
  "ArrayOfQuery j s =
     (case Array j s of
        Panic p \<Rightarrow> Panic p
      | Return (val, Some err) \<Rightarrow> Return ([], Some err)
      | Return (val, None) \<Rightarrow> Return (wrapEach j val, None))"

definition Matrix2D :: "JsonQuery \<Rightarrow> string list \<Rightarrow> value list list go_result" where
  "Matrix2D j s = ArrayOfArrays j s"

subsection \<open>The inline accessors\<close>

text \<open>
  \<^verbatim>\<open>AsBool\<close> and \<^verbatim>\<open>AsFloat\<close> return a literal zero when the fallible accessor failed
  and the flag is off; every other \<^verbatim>\<open>As...\<close> accessor returns the value that came with the
  error.
\<close>

definition AsBool :: "JsonQuery \<Rightarrow> string list \<Rightarrow> bool outcome" where
  "AsBool j s =
     (case Bool j s of
        Panic p \<Rightarrow> Panic p
      | Return (val, Some err) \<Rightarrow>
          (if SingleValuePanicOnError j then Panic (ErrorPanic err) else Return False)
      | Return (val, None) \<Rightarrow> Return val)"

definition AsFloat :: "float_ops \<Rightarrow> JsonQuery \<Rightarrow> string list \<Rightarrow> float64 outcome" where
  "AsFloat fo j s =
     (case Float fo j s of
        Panic p \<Rightarrow> Panic p
      | Return (val, Some err) \<Rightarrow>
          (if SingleValuePanicOnError j then Panic (ErrorPanic err) else Return 0)
      | Return (val, None) \<Rightarrow> Return val)"

definition AsInt :: "JsonQuery \<Rightarrow> string list \<Rightarrow> 64 word outcome" where
  "AsInt j s =
     (case Int' j s of
        Panic p \<Rightarrow> Panic p
      | Return (val, Some err) \<Rightarrow>
          (if SingleValuePanicOnError j then Panic (ErrorPanic err) else Return val)
      | Return (val, None) \<Rightarrow> Return val)"

definition AsInt64 :: "JsonQuery \<Rightarrow> string list \<Rightarrow> 64 word outcome" where
  "AsInt64 j s =
     (case Int64 j s of
        Panic p \<Rightarrow> Panic p
      | Return (val, Some err) \<Rightarrow>
          (if SingleValuePanicOnError j then Panic (ErrorPanic err) else Return val)
      | Return (val, None) \<Rightarrow> Return val)"

definition AsString :: "JsonQuery \<Rightarrow> string list \<Rightarrow> string outcome" where
  "AsString j s =
     (case String j s of
        Panic p \<Rightarrow> Panic p
      | Return (val, Some err) \<Rightarrow>
          (if SingleValuePanicOnError j then Panic (ErrorPanic err) else Return val)
      | Return (val, None) \<Rightarrow> Return val)"

definition AsObject :: "JsonQuery \<Rightarrow> string list \<Rightarrow> (string \<Rightarrow> value option) outcome" where
  "AsObject j s =
     (case Object j s of
        Panic p \<Rightarrow> Panic p
      | Return (val, Some err) \<Rightarrow>
          (if SingleValuePanicOnError j then Panic (ErrorPanic err) else Return val)
      | Return (val, None) \<Rightarrow> Return val)"

definition AsArray :: "JsonQuery \<Rightarrow> string list \<Rightarrow> value list outcome" where
  "AsArray j s =
     (case Array j s of
        Panic p \<Rightarrow> Panic p
      | Return (val, Some err) \<Rightarrow>
          (if SingleValuePanicOnError j then Panic (ErrorPanic err) else Return val)
      | Return (val, None) \<Rightarrow> Return val)"

definition AsInterface :: "JsonQuery \<Rightarrow> string list \<Rightarrow> value outcome" where
  "AsInterface j s =
     (case Interface j s of
        Panic p \<Rightarrow> Panic p
      | Return (val, Some err) \<Rightarrow>
          (if SingleValuePanicOnError j then Panic (ErrorPanic err) else Return val)
      | Return (val, None) \<Rightarrow> Return val)"

definition AsArrayOfStrings :: "JsonQuery \<Rightarrow> string list \<Rightarrow> string list outcome" where
  "AsArrayOfStrings j s =
     (case ArrayOfStrings j s of
        Panic p \<Rightarrow> Panic p
      | Return (val, Some err) \<Rightarrow>
          (if SingleValuePanicOnError j then Panic (ErrorPanic err) else Return val)
      | Return (val, None) \<Rightarrow> Return val)"

definition AsArrayOfInts :: "JsonQuery \<Rightarrow> string list \<Rightarrow> 64 word list outcome" where
  "AsArrayOfInts j s =
     (case ArrayOfInts j s of
        Panic p \<Rightarrow> Panic p
      | Return (val, Some err) \<Rightarrow>
          (if SingleValuePanicOnError j then Panic (ErrorPanic err) else Return val)
      | Return (val, None) \<Rightarrow> Return val)"

definition AsArrayOfFloats :: "float_ops \<Rightarrow> JsonQuery \<Rightarrow> string list \<Rightarrow> float64 list outcome" where
  "AsArrayOfFloats fo j s =
     (case ArrayOfFloats fo j s of
        Panic p \<Rightarrow> Panic p
      | Return (val, Some err) \<Rightarrow>
          (if SingleValuePanicOnError j then Panic (ErrorPanic err) else Return val)
      | Return (val, None) \<Rightarrow> Return val)"

definition AsArrayOfBools :: "JsonQuery \<Rightarrow> string list \<Rightarrow> bool list outcome" where
  "AsArrayOfBools j s =
     (case ArrayOfBools j s of
        Panic p \<Rightarrow> Panic p
      | Return (val, Some err) \<Rightarrow>
          (if SingleValuePanicOnError j then Panic (ErrorPanic err) else Return val)
      | Return (val, None) \<Rightarrow> Return val)"

definition AsArrayOfObjects :: "JsonQuery \<Rightarrow> string list \<Rightarrow> (string \<Rightarrow> value option) list outcome" where
  "AsArrayOfObjects j s =
     (case ArrayOfObjects j s of
        Panic p \<Rightarrow> Panic p
      | Return (val, Some err) \<Rightarrow>
          (if SingleValuePanicOnError j then Panic (ErrorPanic err) else Return val)
      | Return (val, None) \<Rightarrow> Return val)"

definition AsArrayOfArrays :: "JsonQuery \<Rightarrow> string list \<Rightarrow> value list list outcome" where
  "AsArrayOfArrays j s =
     (case ArrayOfArrays j s of
        Panic p \<Rightarrow> Panic p
      | Return (val, Some err) \<Rightarrow>
          (if SingleValuePanicOnError j then Panic (ErrorPanic err) else Return val)
      | Return (val, None) \<Rightarrow> Return val)"

definition AsMatrix2D :: "JsonQuery \<Rightarrow> string list \<Rightarrow> value list list outcome" where
  "AsMatrix2D j s = AsArrayOfArrays j s"

text \<open>\<^verbatim>\<open>MustQuery\<close> panics on every error; it does not read the flag.\<close>

definition MustQuery :: "JsonQuery \<Rightarrow> string list \<Rightarrow> JsonQuery outcome" where
  "MustQuery j s =
     (case Object j s of
        Panic p \<Rightarrow> Panic p
      | Return (obj, Some err) \<Rightarrow> Panic (ErrorPanic err)
      | Return (obj, None) \<Rightarrow>
          Return \<lparr>blob = VObject obj,
                  SingleValuePanicOnError = SingleValuePanicOnError j\<rparr>)"

text \<open>\<^verbatim>\<open>MustArrayOfQuery\<close> returns the nil slice on every error; it does not read the flag.\<close>

definition MustArrayOfQuery :: "JsonQuery \<Rightarrow> string list \<Rightarrow> JsonQuery list outcome" where
  "MustArrayOfQuery j s =
     (case Array j s of
        Panic p \<Rightarrow> Panic p
      | Return (val, Some err) \<Rightarrow> Return []
      | Return (val, None) \<Rightarrow> Return (wrapEach j val))"

section \<open>Vocabulary of the properties\<close>

text \<open>
  What \<^verbatim>\<open>strconv.Atoi\<close> accepts, said without running it: an optional sign \<open>+\<close> or
  \<open>-\<close>, then at least one decimal digit and nothing else, the number within the range of
  \<^verbatim>\<open>int\<close>. \<open>decimalValue_from n ds\<close> reads the digits \<open>ds\<close> after the number \<open>n\<close>.
\<close>

definition decimalValue_from :: "nat \<Rightarrow> string \<Rightarrow> nat" where
  "decimalValue_from n ds = foldl (\<lambda>n c. n * 10 + digitVal c) n ds"

definition unsignedPart :: "string \<Rightarrow> string" where
  "unsignedPart q = (if q \<noteq> [] \<and> (hd q = CHR ''+'' \<or> hd q = CHR ''-'') then tl q else q)"

definition isInteger :: "string \<Rightarrow> bool" where
  "isInteger q =
     (unsignedPart q \<noteq> [] \<and> list_all isDigit (unsignedPart q)
      \<and> (if hd q = CHR ''-'' then decimalValue_from 0 (unsignedPart q) \<le> 2 ^ 63
         else decimalValue_from 0 (unsignedPart q) < 2 ^ 63))"

text \<open>\<open>coercesTo conv vals ys\<close>: every value of \<open>vals\<close> coerces, without error, to its \<open>ys\<close>.\<close>

definition coercesTo :: "(value \<Rightarrow> 'a go_result) \<Rightarrow> value list \<Rightarrow> 'a list \<Rightarrow> bool" where
  "coercesTo conv vals ys = list_all2 (\<lambda>v y. conv v = Return (y, None)) vals ys"

text \<open>
  \<open>atSegment q r\<close> is the result \<open>r\<close> with the segment that a NilValue error names
  replaced by \<open>q\<close>; any other result is left as it is.
\<close>

fun atSegment :: "string \<Rightarrow> value go_result \<Rightarrow> value go_result" where
  "atSegment q (Return (v, Some (NilValue u))) = Return (v, Some (NilValue q))"
| "atSegment q r = r"

section \<open>Properties\<close>

subsection \<open>Evaluation helpers\<close>

lemmas parse_defs = Atoi_def ParseInt_def ParseUint_def isDigit_def digitVal_def maxUint64_def

lemmas path_defs = rquery_def terms_of_def IndexAny_def FieldsFunc_def isDelim_def query_def

lemmas integer_defs = isInteger_def unsignedPart_def decimalValue_from_def isDigit_def digitVal_def

lemmas accessor_defs = Bool_def Float_def Int'_def Int64_def String_def Object_def Array_def
  Interface_def

lemmas array_accessor_defs = ArrayOfStrings_def ArrayOfInts_def ArrayOfFloats_def ArrayOfBools_def
  ArrayOfObjects_def ArrayOfArrays_def

lemma sint_as_uint:
  "sint (w :: 64 word) = (if 2 ^ 63 \<le> uint w then uint w - 2 ^ 64 else uint w)"
proof -
  have b: "0 \<le> uint w" "uint w < 2 ^ 64"
    using uint_bounded [of w] by simp_all
  have s: "sint w = (uint w + 2 ^ 63) mod 2 ^ 64 - 2 ^ 63"
    by (simp add: sint_uint signed_take_bit_eq_take_bit_shift take_bit_eq_mod)
  show ?thesis
  proof (cases "2 ^ 63 \<le> uint w")
    case True
    have "(uint w + 2 ^ 63) mod 2 ^ 64 = (uint w + 2 ^ 63 - 2 ^ 64) mod 2 ^ 64"
      by (metis mod_diff_right_eq mod_self diff_zero)
    also have "\<dots> = uint w + 2 ^ 63 - 2 ^ 64"
      using True b by (intro mod_pos_pos_trivial) simp_all
    finally show ?thesis using True s by simp
  next
    case False
    have "(uint w + 2 ^ 63) mod 2 ^ 64 = uint w + 2 ^ 63"
      using False b by (intro mod_pos_pos_trivial) simp_all
    then show ?thesis using False s by simp
  qed
qed

lemma rquery_empty_nonnil: "b \<noteq> VNil \<Longrightarrow> rquery b [] = Return (b, None)"
  by (cases b) (simp_all add: rquery_def terms_of_def)

subsection \<open>What Atoi accepts\<close>

lemma decimalValue_from_ge: "n \<le> decimalValue_from n ds"
proof (induction ds arbitrary: n)
  case Nil
  show ?case by (simp add: decimalValue_from_def)
next
  case (Cons c cs)
  have "n \<le> n * 10 + digitVal c" by simp
  also have "\<dots> \<le> decimalValue_from (n * 10 + digitVal c) cs" by (rule Cons.IH)
  finally show ?case by (simp add: decimalValue_from_def)
qed

lemma ParseUint_loop_ok:
  "n \<le> maxUint64 \<Longrightarrow>
   (snd (ParseUint_loop n ds) = None \<longleftrightarrow>
      list_all isDigit ds \<and> decimalValue_from n ds \<le> maxUint64) \<and>
   (snd (ParseUint_loop n ds) = None \<longrightarrow> fst (ParseUint_loop n ds) = decimalValue_from n ds)"
proof (induction ds arbitrary: n)
  case Nil
  then show ?case by (simp add: decimalValue_from_def)
next
  case (Cons c cs)
  let ?m = "n * 10 + digitVal c"
  have step: "decimalValue_from n (c # cs) = decimalValue_from ?m cs"
    by (simp add: decimalValue_from_def)
  show ?case
  proof (cases "isDigit c")
    case False
    then show ?thesis by simp
  next
    case True
    show ?thesis
    proof (cases "?m \<le> maxUint64")
      case False
      have big: "\<not> decimalValue_from n (c # cs) \<le> maxUint64"
        using False decimalValue_from_ge [of ?m cs] step by linarith
      have err: "snd (ParseUint_loop n (c # cs)) \<noteq> None"
        using True False by simp
      from big err show ?thesis by blast
    next
      case le: True
      then have small: "\<not> n \<ge> maxUint64 div 10 + 1"
        by (simp add: maxUint64_def)
      have eq: "ParseUint_loop n (c # cs) = ParseUint_loop ?m cs"
        using True le small by simp
      show ?thesis
        using Cons.IH [OF le] True unfolding eq step by simp
    qed
  qed
qed

lemma ParseUint_loop_range:
  "snd (ParseUint_loop n ds) = Some ErrRange \<Longrightarrow> fst (ParseUint_loop n ds) = maxUint64"
  by (induction ds arbitrary: n) (auto split: if_splits)

lemma ParseUint_ok:
  "snd (ParseUint ds) = None \<longleftrightarrow>
     ds \<noteq> [] \<and> list_all isDigit ds \<and> decimalValue_from 0 ds \<le> maxUint64"
  using ParseUint_loop_ok [of 0 ds] by (simp add: ParseUint_def maxUint64_def)

lemma ParseUint_value:
  "snd (ParseUint ds) = None \<Longrightarrow> fst (ParseUint ds) = decimalValue_from 0 ds"
  using ParseUint_loop_ok [of 0 ds] ParseUint_ok [of ds]
  by (auto simp: ParseUint_def maxUint64_def split: if_splits)

lemma ParseUint_range:
  "snd (ParseUint ds) = Some ErrRange \<Longrightarrow> fst (ParseUint ds) = maxUint64"
  using ParseUint_loop_range [of 0 ds] by (auto simp: ParseUint_def split: if_splits)

lemma ParseInt_unfold:
  "q \<noteq> [] \<Longrightarrow> ParseInt q =
     (if snd (ParseUint (unsignedPart q)) = Some ErrSyntax then (0, Some ErrSyntax)
      else if hd q \<noteq> CHR ''-'' \<and> fst (ParseUint (unsignedPart q)) \<ge> 2 ^ 63 then (2 ^ 63 - 1, Some ErrRange)
      else if hd q = CHR ''-'' \<and> fst (ParseUint (unsignedPart q)) > 2 ^ 63 then (- (2 ^ 63), Some ErrRange)
      else (if hd q = CHR ''-'' then - int (fst (ParseUint (unsignedPart q)))
            else int (fst (ParseUint (unsignedPart q))), None))"
  by (simp add: ParseInt_def unsignedPart_def Let_def split: prod.splits)

lemma Atoi_accepts:
  "snd (Atoi q) = None \<longleftrightarrow> isInteger q"
proof (cases "q = []")
  case True
  then show ?thesis by (simp add: Atoi_def ParseInt_def isInteger_def unsignedPart_def)
next
  case False
  let ?u = "ParseUint (unsignedPart q)"
  consider (ok) "snd ?u = None" | (syn) "snd ?u = Some ErrSyntax" | (rng) "snd ?u = Some ErrRange"
    by (cases "snd ?u") (auto intro: num_error.exhaust)
  then show ?thesis
  proof cases
    case ok
    then show ?thesis
      using ParseUint_ok [of "unsignedPart q"] ParseUint_value [of "unsignedPart q"] False
      by (auto simp: Atoi_def ParseInt_unfold isInteger_def)
  next
    case syn
    then have "\<not> isInteger q"
      using ParseUint_ok [of "unsignedPart q"]
      by (auto simp: isInteger_def maxUint64_def split: if_splits)
    with syn False show ?thesis by (simp add: Atoi_def ParseInt_unfold)
  next
    case rng
    then have n: "\<not> isInteger q"
      using ParseUint_ok [of "unsignedPart q"]
      by (auto simp: isInteger_def maxUint64_def split: if_splits)
    have "fst ?u = maxUint64" using rng by (rule ParseUint_range)
    with rng n False show ?thesis by (simp add: Atoi_def ParseInt_unfold maxUint64_def)
  qed
qed

lemma Atoi_value:
  "isInteger q \<Longrightarrow> fst (Atoi q) =
     (if hd q = CHR ''-'' then - int (decimalValue_from 0 (unsignedPart q))
      else int (decimalValue_from 0 (unsignedPart q)))"
proof -
  assume i: "isInteger q"
  then have ne: "q \<noteq> []" by (auto simp: isInteger_def unsignedPart_def)
  have ok: "snd (ParseUint (unsignedPart q)) = None"
    using i ParseUint_ok [of "unsignedPart q"]
    by (auto simp: isInteger_def maxUint64_def split: if_splits)
  show ?thesis
    using i ne ok ParseUint_value [OF ok]
    by (auto simp: Atoi_def ParseInt_unfold isInteger_def split: if_splits)
qed

lemma ParseInt_error_cases:
  "ParseInt q = (v, Some e) \<Longrightarrow>
     (e = ErrSyntax \<and> v = 0) \<or> (e = ErrRange \<and> (v = 2 ^ 63 - 1 \<or> v = - (2 ^ 63)))"
  by (cases "q = []") (auto simp: ParseInt_def Let_def split: if_splits prod.splits)

lemma query_nil:
  "query VNil q = Return (VNil, Some (if snd (Atoi q) = None then NotAnArray VNil else NotAnObject q VNil))"
  by (cases "Atoi q") (auto simp: query_def split: option.splits)

lemma walk_append:
  "walk v (ps @ qs) =
     (case walk v ps of
        Panic p \<Rightarrow> Panic p
      | Return (v', Some e) \<Rightarrow> Return (VNil, Some e)
      | Return (v', None) \<Rightarrow> walk v' qs)"
proof (induction ps arbitrary: v)
  case Nil
  show ?case by simp
next
  case (Cons p ps)
  show ?case
    by (cases "query v p") (auto simp: Cons.IH split: option.splits)
qed

lemma query_returns:
  "\<not> (isInteger q \<and> fst (Atoi q) < 0) \<Longrightarrow> \<exists>r. query b q = Return r"
  unfolding Atoi_accepts [symmetric]
  by (cases "Atoi q"; cases b) (auto simp: query_def split: option.splits)

lemma walk_returns:
  "\<forall>q\<in>set qs. \<not> (isInteger q \<and> fst (Atoi q) < 0) \<Longrightarrow> \<exists>r. walk b qs = Return r"
proof (induction qs arbitrary: b)
  case Nil
  show ?case by simp
next
  case (Cons q qs)
  then obtain r where r: "query b q = Return r"
    using query_returns [of q b] by auto
  show ?case
  proof (cases r)
    case (Pair v e)
    show ?thesis
    proof (cases e)
      case None
      with Pair r Cons show ?thesis by simp
    next
      case (Some err)
      with Pair r show ?thesis by simp
    qed
  qed
qed

lemma rquery_returns:
  assumes "s \<noteq> []" and "\<forall>q\<in>set (terms_of s). \<not> (isInteger q \<and> fst (Atoi q) < 0)"
  shows "\<exists>r. rquery b s = Return r"
proof -
  obtain v e where w: "walk b (terms_of s) = Return (v, e)"
    using walk_returns [OF assms(2), of b] by (metis surj_pair)
  show ?thesis
    using w assms(1) by (cases e; cases v) (simp_all add: rquery_def)
qed

subsection \<open>Tokens of a path string\<close>

lemma FieldsFunc_from_tokens:
  "\<forall>c\<in>set cur. \<not> f c \<Longrightarrow> t \<in> set (FieldsFunc_from f cur s) \<Longrightarrow>
   t \<noteq> [] \<and> (\<forall>c\<in>set t. \<not> f c)"
proof (induction s arbitrary: cur)
  case Nil
  then show ?case by (auto split: if_splits)
next
  case (Cons a s)
  show ?case
  proof (cases "f a")
    case True
    show ?thesis
    proof (cases "cur = []")
      case e: True
      with True Cons.prems have "t \<in> set (FieldsFunc_from f [] s)" by simp
      then show ?thesis using Cons.IH [of "[]"] by simp
    next
      case ne: False
      with True Cons.prems have "t = cur \<or> t \<in> set (FieldsFunc_from f [] s)" by simp
      then show ?thesis using Cons.IH [of "[]"] Cons.prems(1) ne by auto
    qed
  next
    case False
    with Cons.prems have "t \<in> set (FieldsFunc_from f (cur @ [a]) s)" by simp
    moreover have "\<forall>c\<in>set (cur @ [a]). \<not> f c" using False Cons.prems(1) by simp
    ultimately show ?thesis using Cons.IH [of "cur @ [a]"] by blast
  qed
qed

lemma FieldsFunc_tokens:
  "t \<in> set (FieldsFunc s f) \<Longrightarrow> t \<noteq> [] \<and> (\<forall>c\<in>set t. \<not> f c)"
  using FieldsFunc_from_tokens [of "[]" f t s] by (simp add: FieldsFunc_def)

lemma IndexAny_from_none: "set t \<inter> set chars = {} \<Longrightarrow> IndexAny_from i t chars = - 1"
  by (induction t arbitrary: i) auto

lemma token_has_no_delimiter:
  assumes "t \<in> set (FieldsFunc p isDelim)"
  shows "IndexAny t ''.[]'' = - 1"
proof -
  have "\<forall>c\<in>set t. \<not> isDelim c" using FieldsFunc_tokens [OF assms] by simp
  then have "set t \<inter> set ''.[]'' = {}" by (auto simp: isDelim_def)
  then show ?thesis by (simp add: IndexAny_def IndexAny_from_none)
qed

lemma terms_of_tokens: "terms_of (FieldsFunc p isDelim) = FieldsFunc p isDelim"
proof (cases "length (FieldsFunc p isDelim) = 1")
  case True
  then obtain t where t: "FieldsFunc p isDelim = [t]"
    by (cases "FieldsFunc p isDelim") auto
  then have "IndexAny t ''.[]'' = - 1"
    using token_has_no_delimiter [of t p] by simp
  with t show ?thesis by (simp add: terms_of_def)
next
  case False
  then show ?thesis by (simp add: terms_of_def)
qed

lemma query_error_kinds: "query b q = Return (v, Some e) \<Longrightarrow> e \<noteq> NilValue u"
  by (cases "Atoi q"; cases b) (auto simp: query_def split: option.splits if_splits)

lemma walk_error_kinds: "walk b qs = Return (v, Some e) \<Longrightarrow> e \<noteq> NilValue u"
proof (induction qs arbitrary: b)
  case Nil
  then show ?case by simp
next
  case (Cons q qs)
  show ?case
  proof (cases "query b q")
    case (Panic x)
    with Cons.prems show ?thesis by simp
  next
    case (Return r)
    obtain w f where r: "r = (w, f)" by (cases r)
    show ?thesis
    proof (cases f)
      case None
      with Return r Cons.prems have "walk w qs = Return (v, Some e)" by simp
      then show ?thesis by (rule Cons.IH)
    next
      case (Some err)
      with Return r Cons.prems have "e = err" by simp
      with Some Return r show ?thesis using query_error_kinds [of b q w err u] by simp
    qed
  qed
qed

lemma atSegment_kind:
  "atSegment q r = Return (v, Some e) \<Longrightarrow> \<exists>e'. r = Return (v, Some e') \<and> kind e' = kind e"
  by (cases "(q, r)" rule: atSegment.cases) auto

lemma atSegment_value: "atSegment q r = Return (v, None) \<Longrightarrow> r = Return (v, None)"
  by (cases "(q, r)" rule: atSegment.cases) auto

subsection \<open>The typed-array loop\<close>

lemma coerceEach_fails_from:
  assumes "list_all2 (\<lambda>v y. conv v = Return (y, None)) pre ys"
    and "conv x = Return (vx, Some e)"
  shows "coerceEach conv (ds @ replicate (length (pre @ x # post)) z) (length ds) (pre @ x # post)
         = Return (ds @ ys @ vx # replicate (length post) z, Some e)"
  using assms(1)
proof (induction pre ys arbitrary: ds rule: list_all2_induct)
  case Nil
  show ?case using assms(2) by (simp add: list_update_append)
next
  case (Cons v pre y ys)
  have "coerceEach conv (ds @ replicate (length ((v # pre) @ x # post)) z) (length ds)
          ((v # pre) @ x # post)
        = coerceEach conv ((ds @ [y]) @ replicate (length (pre @ x # post)) z)
            (length (ds @ [y])) (pre @ x # post)"
    using Cons.hyps(1) by (simp add: list_update_append)
  also have "\<dots> = Return ((ds @ [y]) @ ys @ vx # replicate (length post) z, Some e)"
    by (rule Cons.IH)
  finally show ?case by simp
qed

lemma coerceEach_succeeds_from:
  assumes "list_all2 (\<lambda>v y. conv v = Return (y, None)) vals ys"
  shows "coerceEach conv (ds @ replicate (length vals) z) (length ds) vals = Return (ds @ ys, None)"
  using assms
proof (induction vals ys arbitrary: ds rule: list_all2_induct)
  case Nil
  show ?case by simp
next
  case (Cons v vals y ys)
  have "coerceEach conv (ds @ replicate (length (v # vals)) z) (length ds) (v # vals)
        = coerceEach conv ((ds @ [y]) @ replicate (length vals) z) (length (ds @ [y])) vals"
    using Cons.hyps(1) by (simp add: list_update_append)
  also have "\<dots> = Return ((ds @ [y]) @ ys, None)"
    by (rule Cons.IH)
  finally show ?case by simp
qed

lemma coerceEach_fails:
  assumes "coercesTo conv pre ys" and "conv x = Return (vx, Some e)"
  shows "coerceEach conv (replicate (length (pre @ x # post)) z) 0 (pre @ x # post)
         = Return (ys @ vx # replicate (length post) z, Some e)"
  using coerceEach_fails_from [of conv pre ys x vx e "[]" post z] assms
  by (simp add: coercesTo_def)

subsection \<open>The value returned next to an error\<close>

lemma intFromInterface_error_value:
  assumes "intFromInterface v = Return (i, Some e)"
  shows "i = 0 \<or> ((\<exists>t. e = NumError t ErrRange)
                  \<and> (i = 0x7FFFFFFFFFFFFFFF \<or> i = 0x8000000000000000))"
proof (cases "\<exists>t. v = VNumber t")
  case True
  then obtain t where v: "v = VNumber t" by blast
  obtain n r where p: "ParseInt t = (n, r)" by (cases "ParseInt t")
  with v assms obtain ne where r: "r = Some ne" and i: "i = word_of_int n"
    and e: "e = NumError t ne"
    by (cases r) auto
  from ParseInt_error_cases [of t n ne] p r
  consider "n = 0" | "ne = ErrRange" "n = 2 ^ 63 - 1" | "ne = ErrRange" "n = - (2 ^ 63)" by auto
  then show ?thesis
  proof cases
    case 1 with i show ?thesis by simp
  next
    case 2 with i e show ?thesis by simp
  next
    case 3 with i e show ?thesis by simp
  qed
next
  case False
  with assms have "i = 0"
    by (cases v rule: intFromInterface.cases) (auto split: prod.splits option.splits)
  then show ?thesis by simp
qed

lemma intFromInterface_error_zero:
  "intFromInterface x = Return (v, Some e) \<Longrightarrow> (\<forall>t. e \<noteq> NumError t ErrRange) \<Longrightarrow> v = 0"
  using intFromInterface_error_value [of x v e] by auto

lemma floatFromInterface_error_value:
  "floatFromInterface fo x = Return (v, Some e) \<Longrightarrow> (\<forall>t ne. e \<noteq> NumError t ne) \<Longrightarrow> v = 0"
  by (cases "(fo, x)" rule: floatFromInterface.cases) (auto split: prod.splits option.splits)

lemma boolFromInterface_error_value: "boolFromInterface x = Return (v, Some e) \<Longrightarrow> v = False"
  by (cases x rule: boolFromInterface.cases) auto

lemma boolFromInterface_accepts:
  "boolFromInterface v = Return (b, None) \<Longrightarrow> v = VBool b \<or> v = VBoolPtr (Some b)"
  by (cases v rule: boolFromInterface.cases) auto

lemma stringFromInterface_error_value: "stringFromInterface x = Return (v, Some e) \<Longrightarrow> v = []"
  by (cases x rule: stringFromInterface.cases) auto

lemma objectFromInterface_error_value:
  "objectFromInterface x = Return (v, Some e) \<Longrightarrow> v = Map.empty"
  by (cases x rule: objectFromInterface.cases) auto

lemma arrayFromInterface_error_value: "arrayFromInterface x = Return (v, Some e) \<Longrightarrow> v = []"
  by (cases x rule: arrayFromInterface.cases) auto

lemma coerceEach_error_shape_from:
  assumes "coerceEach conv (ds @ replicate (length vals) z) (length ds) vals = Return (vs, Some e)"
  shows "\<exists>pre x post ys vx. vals = pre @ x # post
           \<and> list_all2 (\<lambda>v y. conv v = Return (y, None)) pre ys
           \<and> conv x = Return (vx, Some e)
           \<and> vs = ds @ ys @ vx # replicate (length post) z"
  using assms
proof (induction vals arbitrary: ds)
  case Nil
  then show ?case by simp
next
  case (Cons v vals)
  show ?case
  proof (cases "conv v")
    case (Panic p)
    with Cons.prems show ?thesis by simp
  next
    case (Return r)
    obtain y f where r: "r = (y, f)" by (cases r)
    show ?thesis
    proof (cases f)
      case None
      with Return r Cons.prems
      have "coerceEach conv ((ds @ [y]) @ replicate (length vals) z) (length (ds @ [y])) vals
            = Return (vs, Some e)"
        by (simp add: list_update_append)
      from Cons.IH [OF this] obtain pre x post ys vx where
        v: "vals = pre @ x # post"
        and p: "list_all2 (\<lambda>v y. conv v = Return (y, None)) pre ys"
        and x: "conv x = Return (vx, Some e)"
        and s: "vs = (ds @ [y]) @ ys @ vx # replicate (length post) z"
        by blast
      from p Return r None
      have p': "list_all2 (\<lambda>v y. conv v = Return (y, None)) (v # pre) (y # ys)" by simp
      from v have v': "v # vals = (v # pre) @ x # post" by simp
      from s have s': "vs = ds @ (y # ys) @ vx # replicate (length post) z" by simp
      from v' p' x s' show ?thesis by blast
    next
      case (Some err)
      with Return r Cons.prems have e: "err = e" and s: "vs = ds @ [] @ y # replicate (length vals) z"
        by (simp_all add: list_update_append)
      have v': "v # vals = [] @ v # vals" by simp
      have p': "list_all2 (\<lambda>v y. conv v = Return (y, None)) [] []" by simp
      from Return r Some e have x: "conv v = Return (y, Some e)" by simp
      from v' p' x s show ?thesis by blast
    qed
  qed
qed

lemma Bool_error_value: "Bool j s = Return (v, Some e) \<Longrightarrow> v = False"
  by (cases "rquery (blob j) s")
    (auto simp: Bool_def split: option.splits dest: boolFromInterface_error_value)

lemma String_error_value: "String j s = Return (v, Some e) \<Longrightarrow> v = []"
  by (cases "rquery (blob j) s")
    (auto simp: String_def split: option.splits dest: stringFromInterface_error_value)

lemma Object_error_value: "Object j s = Return (v, Some e) \<Longrightarrow> v = Map.empty"
  by (cases "rquery (blob j) s")
    (auto simp: Object_def split: option.splits dest: objectFromInterface_error_value)

lemma Array_error_value: "Array j s = Return (v, Some e) \<Longrightarrow> v = []"
  by (cases "rquery (blob j) s")
    (auto simp: Array_def split: option.splits dest: arrayFromInterface_error_value)

lemma Interface_error_value: "Interface j s = Return (v, Some e) \<Longrightarrow> v = VNil"
  by (cases "rquery (blob j) s") (auto simp: Interface_def split: option.splits)

lemma Int64_error_value:
  "Int64 j s = Return (i, Some e) \<Longrightarrow>
   i = 0 \<or> ((\<exists>t. e = NumError t ErrRange) \<and> (i = 0x7FFFFFFFFFFFFFFF \<or> i = 0x8000000000000000))"
  by (cases "rquery (blob j) s")
    (auto simp: Int64_def split: option.splits dest: intFromInterface_error_value)

lemma Int_error_value:
  "Int' j s = Return (i, Some e) \<Longrightarrow>
   i = 0 \<or> ((\<exists>t. e = NumError t ErrRange) \<and> (i = 0x7FFFFFFFFFFFFFFF \<or> i = 0x8000000000000000))"
  by (cases "rquery (blob j) s")
    (auto simp: Int'_def split: option.splits outcome.splits dest: intFromInterface_error_value)

lemma typed_array_error_shape:
  assumes "(case Array j s of
              Panic p \<Rightarrow> Panic p
            | Return (array, Some err) \<Rightarrow> Return ([], Some err)
            | Return (array, None) \<Rightarrow> coerceEach conv (replicate (length array) z) 0 array)
           = Return (vs, Some e)"
  shows "(Array j s = Return ([], Some e) \<and> vs = [])
         \<or> (\<exists>pre x post ys vx. Array j s = Return (pre @ x # post, None)
               \<and> coercesTo conv pre ys
               \<and> conv x = Return (vx, Some e)
               \<and> vs = ys @ vx # replicate (length post) z)"
proof (cases "Array j s")
  case (Panic x)
  with assms show ?thesis by simp
next
  case (Return r)
  obtain a f where r: "r = (a, f)" by (cases r)
  show ?thesis
  proof (cases f)
    case None
    with Return r assms
    have "coerceEach conv ([] @ replicate (length a) z) (length ([] :: 'a list)) a = Return (vs, Some e)"
      by simp
    from coerceEach_error_shape_from [OF this] obtain pre x post ys vx where
      "a = pre @ x # post" "list_all2 (\<lambda>v y. conv v = Return (y, None)) pre ys"
      "conv x = Return (vx, Some e)" "vs = ys @ vx # replicate (length post) z"
      by auto
    with None Return r have "\<exists>pre x post ys vx. Array j s = Return (pre @ x # post, None)
               \<and> coercesTo conv pre ys
               \<and> conv x = Return (vx, Some e)
               \<and> vs = ys @ vx # replicate (length post) z"
      unfolding coercesTo_def by blast
    then show ?thesis by (rule disjI2)
  next
    case (Some err)
    with Return r assms Array_error_value [of j s a err] show ?thesis by auto
  qed
qed

lemma typed_array_slot:
  assumes "(case Array j s of
              Panic p \<Rightarrow> Panic p
            | Return (array, Some err) \<Rightarrow> Return ([], Some err)
            | Return (array, None) \<Rightarrow> coerceEach conv (replicate (length array) z) 0 array)
           = Return (vs, Some e)"
    and "\<And>x v. conv x = Return (v, Some e) \<Longrightarrow> P \<Longrightarrow> v = z"
  shows "(Array j s = Return ([], Some e) \<and> vs = [])
         \<or> (\<exists>pre x post ys v. Array j s = Return (pre @ x # post, None)
               \<and> coercesTo conv pre ys
               \<and> conv x = Return (v, Some e)
               \<and> vs = ys @ v # replicate (length post) z
               \<and> (P \<longrightarrow> v = z))"
  using typed_array_error_shape [OF assms(1)] assms(2) by blast

lemma typed_array_zero_slot:
  assumes "(case Array j s of
              Panic p \<Rightarrow> Panic p
            | Return (array, Some err) \<Rightarrow> Return ([], Some err)
            | Return (array, None) \<Rightarrow> coerceEach conv (replicate (length array) z) 0 array)
           = Return (vs, Some e)"
    and "\<And>x v. conv x = Return (v, Some e) \<Longrightarrow> v = z"
  shows "(Array j s = Return ([], Some e) \<and> vs = [])
         \<or> (\<exists>pre x post ys. Array j s = Return (pre @ x # post, None)
               \<and> coercesTo conv pre ys
               \<and> conv x = Return (z, Some e)
               \<and> vs = ys @ replicate (Suc (length post)) z)"
proof -
  from typed_array_error_shape [OF assms(1)]
  consider "Array j s = Return ([], Some e) \<and> vs = []"
    | pre x post ys v where "Array j s = Return (pre @ x # post, None)"
        "coercesTo conv pre ys" "conv x = Return (v, Some e)"
        "vs = ys @ v # replicate (length post) z"
    by blast
  then show ?thesis
  proof cases
    case 1
    then show ?thesis by (rule disjI1)
  next
    case 2
    from assms(2) [OF 2(3)] have v: "v = z" .
    from 2 v have "Array j s = Return (pre @ x # post, None)
               \<and> coercesTo conv pre ys
               \<and> conv x = Return (z, Some e)
               \<and> vs = ys @ replicate (Suc (length post)) z"
      by simp
    then show ?thesis by blast
  qed
qed

text \<open>
  The one value next to an error that is not zero: a \<^verbatim>\<open>json.Number\<close> out of range
  comes back as the nearest bound, here \<open>2^63\<close> as \<open>2^63 - 1\<close>, and \<^verbatim>\<open>ArrayOfInts\<close> and
  \<^verbatim>\<open>AsInt64\<close> hand it on.
\<close>

lemma ParseInt_above_range:
  "ParseInt ''9223372036854775808'' = (9223372036854775807, Some ErrRange)"
  by (simp add: parse_defs)

lemma number_out_of_range_slot:
  "ArrayOfInts
     (NewQuery (VArray [VFloat64 0x3FF0000000000000, VNumber ''9223372036854775808'',
                        VFloat64 0x4008000000000000])) []
   = Return ([1, 0x7FFFFFFFFFFFFFFF, 0], Some (NumError ''9223372036854775808'' ErrRange))
   \<and> AsInt64 (NewQuery (VNumber ''9223372036854775808'')) [] = Return 0x7FFFFFFFFFFFFFFF"
proof -
  have one: "int64_of_float64 0x3FF0000000000000 = 1"
    by (simp add: int64_of_float64_def Let_def int64_indefinite_def bit_numeral_word_iff
        drop_bit_eq_div take_bit_eq_mod)
  have arr: "Array
       (NewQuery (VArray [VFloat64 0x3FF0000000000000, VNumber ''9223372036854775808'',
                        VFloat64 0x4008000000000000])) []
     = Return ([VFloat64 0x3FF0000000000000, VNumber ''9223372036854775808'',
                        VFloat64 0x4008000000000000], None)"
    by (simp add: Array_def NewQuery_def rquery_def terms_of_def)
  have ints: "ArrayOfInts
     (NewQuery (VArray [VFloat64 0x3FF0000000000000, VNumber ''9223372036854775808'',
                        VFloat64 0x4008000000000000])) []
   = Return ([1, 0x7FFFFFFFFFFFFFFF, 0], Some (NumError ''9223372036854775808'' ErrRange))"
    by (simp add: ArrayOfInts_def arr one ParseInt_above_range)
  have r: "rquery (VNumber ''9223372036854775808'') [] = Return (VNumber ''9223372036854775808'', None)"
    by (simp add: rquery_def terms_of_def)
  have a: "AsInt64 (NewQuery (VNumber ''9223372036854775808'')) [] = Return 0x7FFFFFFFFFFFFFFF"
    by (simp add: AsInt64_def Int64_def NewQuery_def r ParseInt_above_range)
  from ints a show ?thesis by (rule conjI)
qed

subsection \<open>Resolving no segments\<close>

text \<open>
  C3. An empty segment sequence should return the root unchanged, or fail with a NilValue
  error when the root is null, and never abort. On a null root the source aborts instead:
  the message of the nil check reads \<^verbatim>\<open>s[len(s)-1]\<close> with \<open>s\<close> empty, an index out of
  range. (A root that is not null is returned unchanged: \<open>rquery_empty_nonnil\<close>.)
\<close>

theorem rquery_empty_nil_panics: "rquery VNil [] = Panic (IndexOutOfRange (- 1) 0)"
  by (simp add: rquery_def terms_of_def)

subsection \<open>The worked example of the specification\<close>

text \<open>
  C7. On the tree \<open>{"a": {"b": [n1, n2, n3]}}\<close>, whatever the three numbers are decoded to
  (the decoder yields \<^verbatim>\<open>float64\<close> values, none of them null): path \<open>a.b[1]\<close> yields the
  second element; \<open>a.b[5]\<close> fails with IndexOutOfBounds; \<open>a.c\<close> fails with KeyNotFound;
  \<open>a.b[x]\<close> fails with NotAnObject, since \<open>x\<close> is no integer and a sequence is no mapping.
\<close>

theorem example_tree:
  assumes "n2 \<noteq> VNil"
  shows "rquery (VObject [''a'' \<mapsto> VObject [''b'' \<mapsto> VArray [n1, n2, n3]]]) [''a.b[1]'']
           = Return (n2, None)
       \<and> rquery (VObject [''a'' \<mapsto> VObject [''b'' \<mapsto> VArray [n1, n2, n3]]]) [''a.b[5]'']
           = Return (VNil, Some (IndexOutOfBounds 5 (VArray [n1, n2, n3])))
       \<and> rquery (VObject [''a'' \<mapsto> VObject [''b'' \<mapsto> VArray [n1, n2, n3]]]) [''a.c'']
           = Return (VNil, Some (KeyNotFound (VObject [''b'' \<mapsto> VArray [n1, n2, n3]]) ''c''))
       \<and> rquery (VObject [''a'' \<mapsto> VObject [''b'' \<mapsto> VArray [n1, n2, n3]]]) [''a.b[x]'']
           = Return (VNil, Some (NotAnObject ''x'' (VArray [n1, n2, n3])))"
proof -
  have 1: "rquery (VObject [''a'' \<mapsto> VObject [''b'' \<mapsto> VArray [n1, n2, n3]]]) [''a.b[1]'']
           = Return (n2, None)"
    using assms by (cases n2) (simp_all add: path_defs parse_defs)
  have 2: "rquery (VObject [''a'' \<mapsto> VObject [''b'' \<mapsto> VArray [n1, n2, n3]]]) [''a.b[5]'']
           = Return (VNil, Some (IndexOutOfBounds 5 (VArray [n1, n2, n3])))"
    by (simp add: path_defs parse_defs)
  have 3: "rquery (VObject [''a'' \<mapsto> VObject [''b'' \<mapsto> VArray [n1, n2, n3]]]) [''a.c'']
           = Return (VNil, Some (KeyNotFound (VObject [''b'' \<mapsto> VArray [n1, n2, n3]]) ''c''))"
    by (simp add: path_defs parse_defs)
  have 4: "rquery (VObject [''a'' \<mapsto> VObject [''b'' \<mapsto> VArray [n1, n2, n3]]]) [''a.b[x]'']
           = Return (VNil, Some (NotAnObject ''x'' (VArray [n1, n2, n3])))"
    by (simp add: path_defs parse_defs)
  from 1 2 3 4 show ?thesis by blast
qed

text \<open>The example with the numbers as the decoder produces them: 1.0, 2.0 and 3.0.\<close>

theorem example_tree_witness:
  "VFloat64 0x4000000000000000 \<noteq> VNil
   \<and> rquery (VObject [''a'' \<mapsto> VObject [''b'' \<mapsto>
        VArray [VFloat64 0x3FF0000000000000, VFloat64 0x4000000000000000,
                VFloat64 0x4008000000000000]]]) [''a.b[1]'']
       = Return (VFloat64 0x4000000000000000, None)"
  using example_tree [of "VFloat64 0x4000000000000000" "VFloat64 0x3FF0000000000000"
      "VFloat64 0x4008000000000000"]
  by simp

subsection \<open>Coercing single values\<close>

text \<open>
  C8. The string value \<open>"42"\<close> coerces to the integer 42, and its coercion to a boolean
  fails with a TypeMismatch error.
\<close>

theorem coerce_string_42:
  "intFromInterface (VString ''42'') = Return (42, None)
   \<and> boolFromInterface (VString ''42'')
       = Return (False, Some (TypeMismatch ''Bool'' (VString ''42'')))"
  by (simp add: parse_defs)

text \<open>
  C10. A value carried as a \<^verbatim>\<open>uint64\<close> always coerces to an integer, without error: the
  result has the same 64 bits, read as two's complement, so a source of at least \<open>2^63\<close>
  gives the source minus \<open>2^64\<close>, a negative number.
\<close>

theorem uint64_reinterpreted:
  "intFromInterface (VUint64 w) = Return (w, None)
   \<and> sint w = (if 2 ^ 63 \<le> uint w then uint w - 2 ^ 64 else uint w)
   \<and> (sint w < 0) = (2 ^ 63 \<le> uint w)"
proof -
  have "0 \<le> uint w" "uint w < 2 ^ 64"
    using uint_bounded [of w] by simp_all
  then show ?thesis
    by (simp add: sint_as_uint)
qed

subsection \<open>One segment: index or key\<close>

text \<open>
  C1, as the code has it. A segment is an index attempt exactly when Atoi accepts it, that
  is when it is an integer with an optional sign: the signed segment \<open>-1\<close> is one. Such a
  segment fails with NotAnArray on a value that is no sequence, fails with IndexOutOfBounds
  when the index is at least the length, and yields the element when the index is within
  \<open>[0, length)\<close>. Every other segment is a mapping-key attempt: NotAnObject on a value that
  is no mapping, KeyNotFound on a missing key, the mapped value otherwise. With at least one
  segment given and no segment that is a negative integer, resolution returns (a value or
  one of these errors) and does not abort.
\<close>

theorem segment_dispatch:
  "(\<not> isInteger q \<longrightarrow>
      query b q =
        (case b of
           VObject m \<Rightarrow>
             (case m q of
                None \<Rightarrow> Return (VNil, Some (KeyNotFound b q))
              | Some val \<Rightarrow> Return (val, None))
         | _ \<Rightarrow> Return (VNil, Some (NotAnObject q b))))
   \<and> (isInteger q \<longrightarrow> (\<forall>xs. b \<noteq> VArray xs) \<longrightarrow>
        query b q = Return (VNil, Some (NotAnArray b)))
   \<and> (isInteger q \<longrightarrow> int (length xs) \<le> fst (Atoi q) \<longrightarrow>
        query (VArray xs) q = Return (VNil, Some (IndexOutOfBounds (fst (Atoi q)) (VArray xs))))
   \<and> (isInteger q \<longrightarrow> 0 \<le> fst (Atoi q) \<longrightarrow> fst (Atoi q) < int (length xs) \<longrightarrow>
        query (VArray xs) q = Return (xs ! nat (fst (Atoi q)), None))
   \<and> (s \<noteq> [] \<longrightarrow> (\<forall>t\<in>set (terms_of s). \<not> (isInteger t \<and> fst (Atoi t) < 0)) \<longrightarrow>
        (\<exists>r. rquery b s = Return r))"
proof -
  have key: "\<not> isInteger q \<longrightarrow>
      query b q =
        (case b of
           VObject m \<Rightarrow>
             (case m q of
                None \<Rightarrow> Return (VNil, Some (KeyNotFound b q))
              | Some val \<Rightarrow> Return (val, None))
         | _ \<Rightarrow> Return (VNil, Some (NotAnObject q b)))"
    unfolding Atoi_accepts [symmetric]
    by (cases "Atoi q"; cases b) (auto simp: query_def split: option.splits)
  have nonarray: "isInteger q \<longrightarrow> (\<forall>xs. b \<noteq> VArray xs) \<longrightarrow>
        query b q = Return (VNil, Some (NotAnArray b))"
    unfolding Atoi_accepts [symmetric]
    by (cases "Atoi q"; cases b) (auto simp: query_def)
  have high: "isInteger q \<longrightarrow> int (length xs) \<le> fst (Atoi q) \<longrightarrow>
        query (VArray xs) q = Return (VNil, Some (IndexOutOfBounds (fst (Atoi q)) (VArray xs)))"
    unfolding Atoi_accepts [symmetric]
    by (cases "Atoi q") (auto simp: query_def)
  have inside: "isInteger q \<longrightarrow> 0 \<le> fst (Atoi q) \<longrightarrow> fst (Atoi q) < int (length xs) \<longrightarrow>
        query (VArray xs) q = Return (xs ! nat (fst (Atoi q)), None)"
    unfolding Atoi_accepts [symmetric]
    by (cases "Atoi q") (auto simp: query_def)
  have total: "s \<noteq> [] \<longrightarrow> (\<forall>t\<in>set (terms_of s). \<not> (isInteger t \<and> fst (Atoi t) < 0)) \<longrightarrow>
        (\<exists>r. rquery b s = Return r)"
    using rquery_returns [of s b] by blast
  from key nonarray high inside total show ?thesis by blast
qed

text \<open>The five parts of C1 at concrete segments and values.\<close>

theorem segment_dispatch_witness:
  "\<not> isInteger ''x''
   \<and> query (VArray [VBool True]) ''x'' = Return (VNil, Some (NotAnObject ''x'' (VArray [VBool True])))
   \<and> isInteger ''-1''
   \<and> query (VString ''v'') ''-1'' = Return (VNil, Some (NotAnArray (VString ''v'')))
   \<and> isInteger ''1'' \<and> fst (Atoi ''1'') = 1
   \<and> query (VArray [VBool True]) ''1''
       = Return (VNil, Some (IndexOutOfBounds 1 (VArray [VBool True])))
   \<and> isInteger ''0'' \<and> fst (Atoi ''0'') = 0
   \<and> query (VArray [VBool True]) ''0'' = Return (VBool True, None)
   \<and> (\<exists>r. rquery (VArray [VBool True]) [''0''] = Return r)"
proof -
  have x: "\<not> isInteger ''x''" by (simp add: integer_defs)
  have m: "isInteger ''-1''" by (simp add: integer_defs)
  have one: "isInteger ''1''" "fst (Atoi ''1'') = 1" by (simp_all add: integer_defs parse_defs)
  have zero: "isInteger ''0''" "fst (Atoi ''0'') = 0" by (simp_all add: integer_defs parse_defs)
  have t: "terms_of [''0''] = [''0'']" by (simp add: terms_of_def IndexAny_def)
  note d1 = segment_dispatch [of "''x''" "VArray [VBool True]" "[]" "[''0'']"]
  note d2 = segment_dispatch [of "''-1''" "VString ''v''" "[]" "[''0'']"]
  note d3 = segment_dispatch [of "''1''" "VArray [VBool True]" "[VBool True]" "[''0'']"]
  note d4 = segment_dispatch [of "''0''" "VArray [VBool True]" "[VBool True]" "[''0'']"]
  show ?thesis
    using d1 d2 d3 d4 x m one zero t by simp
qed

text \<open>
  C1 as stated fails at the segment \<open>-1\<close>: it is not a non-negative integer, yet it is
  taken as an index. On a string value the error is NotAnArray, not NotAnObject; on a
  sequence the index \<open>-1\<close> passes the bound check and indexing aborts.
\<close>

theorem negative_segment_counterexample:
  "\<not> (0 \<le> fst (Atoi ''-1''))
   \<and> query (VString ''v'') ''-1'' = Return (VNil, Some (NotAnArray (VString ''v'')))
   \<and> query (VString ''v'') ''-1'' \<noteq> Return (VNil, Some (NotAnObject ''-1'' (VString ''v'')))
   \<and> query (VArray [VBool True]) ''-1'' = Panic (IndexOutOfRange (- 1) 1)"
  by (simp add: query_def parse_defs)

subsection \<open>A null value before the last segment\<close>

text \<open>
  C9, as the code has it. When the segments before \<open>q\<close> resolve to a null value, resolution
  fails at \<open>q\<close>: with NotAnArray if \<open>q\<close> is an integer, signed or not, and with NotAnObject
  otherwise; never with NilValue, whatever follows \<open>q\<close>.
\<close>

theorem null_inside_path:
  assumes "terms_of s = ps @ q # rest" and "walk b ps = Return (VNil, None)"
  shows "rquery b s = Return (VNil, Some (if isInteger q then NotAnArray VNil
                                          else NotAnObject q VNil))"
  using assms by (simp add: rquery_def walk_append query_nil Atoi_accepts)

text \<open>C9 on the tree \<open>{"a": null}\<close> with the segments \<open>a\<close>, \<open>x\<close>.\<close>

theorem null_inside_path_witness:
  "terms_of [''a'', ''x''] = [''a''] @ ''x'' # []
   \<and> walk (VObject [''a'' \<mapsto> VNil]) [''a''] = Return (VNil, None)
   \<and> rquery (VObject [''a'' \<mapsto> VNil]) [''a'', ''x''] = Return (VNil, Some (NotAnObject ''x'' VNil))"
proof -
  have 1: "terms_of [''a'', ''x''] = [''a''] @ ''x'' # []" by (simp add: terms_of_def)
  have 2: "walk (VObject [''a'' \<mapsto> VNil]) [''a''] = Return (VNil, None)"
    by (simp add: query_def parse_defs)
  have 3: "\<not> isInteger ''x''" by (simp add: integer_defs)
  show ?thesis using null_inside_path [OF 1 2] 1 2 3 by simp
qed

text \<open>
  C9 as stated fails when the segment after the null value is \<open>-1\<close>: not a non-negative
  integer, and the error is NotAnArray.
\<close>

theorem null_inside_path_counterexample:
  "\<not> (0 \<le> fst (Atoi ''-1''))
   \<and> walk (VObject [''a'' \<mapsto> VNil]) [''a''] = Return (VNil, None)
   \<and> rquery (VObject [''a'' \<mapsto> VNil]) [''a'', ''-1''] = Return (VNil, Some (NotAnArray VNil))
   \<and> rquery (VObject [''a'' \<mapsto> VNil]) [''a'', ''-1'']
       \<noteq> Return (VNil, Some (NotAnObject ''-1'' VNil))"
  by (simp add: path_defs parse_defs)

subsection \<open>A path that resolves to null\<close>

text \<open>
  With at least one segment given, a path that resolves to null fails with NilValue in every
  fallible accessor, before any coercion: the value returned with the error is the zero
  value of the shape.
\<close>

lemma rquery_null:
  assumes "s \<noteq> []" and "walk b (terms_of s) = Return (VNil, None)"
  shows "rquery b s = Return (VNil, Some (NilValue (last s)))"
  using assms by (simp add: rquery_def)

lemma null_fails_before_coercion:
  assumes "s \<noteq> []" and "walk (blob j) (terms_of s) = Return (VNil, None)"
  shows "Bool j s = Return (False, Some (NilValue (last s)))"
    and "Float fo j s = Return (0, Some (NilValue (last s)))"
    and "Int' j s = Return (0, Some (NilValue (last s)))"
    and "Int64 j s = Return (0, Some (NilValue (last s)))"
    and "String j s = Return ([], Some (NilValue (last s)))"
    and "Object j s = Return (Map.empty, Some (NilValue (last s)))"
    and "Array j s = Return ([], Some (NilValue (last s)))"
    and "Interface j s = Return (VNil, Some (NilValue (last s)))"
    and "ArrayOfStrings j s = Return ([], Some (NilValue (last s)))"
    and "ArrayOfInts j s = Return ([], Some (NilValue (last s)))"
    and "ArrayOfFloats fo j s = Return ([], Some (NilValue (last s)))"
    and "ArrayOfBools j s = Return ([], Some (NilValue (last s)))"
    and "ArrayOfObjects j s = Return ([], Some (NilValue (last s)))"
    and "ArrayOfArrays j s = Return ([], Some (NilValue (last s)))"
    and "ArrayOfQuery j s = Return ([], Some (NilValue (last s)))"
    and "Query j s = Return (None, Some (NilValue (last s)))"
  using rquery_null [OF assms]
  by (simp_all add: accessor_defs array_accessor_defs ArrayOfQuery_def Query_def)

text \<open>
  C5. A path that resolves to null should fail with NilValue whatever the target shape. With
  no segment and a null root the path resolves (to the root, which is null), and every
  accessor aborts instead, on the index \<^verbatim>\<open>s[len(s)-1]\<close> of the nil check.
\<close>

theorem null_root_no_segment_panics:
  "Bool (NewQuery VNil) [] = Panic (IndexOutOfRange (- 1) 0)
   \<and> Int64 (NewQuery VNil) [] = Panic (IndexOutOfRange (- 1) 0)
   \<and> String (NewQuery VNil) [] = Panic (IndexOutOfRange (- 1) 0)
   \<and> Object (NewQuery VNil) [] = Panic (IndexOutOfRange (- 1) 0)
   \<and> Array (NewQuery VNil) [] = Panic (IndexOutOfRange (- 1) 0)
   \<and> Interface (NewQuery VNil) [] = Panic (IndexOutOfRange (- 1) 0)"
  by (simp add: accessor_defs NewQuery_def rquery_def terms_of_def)

subsection \<open>Typed arrays stop at the first failure\<close>

text \<open>
  C6. When the path resolves to the sequence \<open>pre @ x # post\<close>, every element of \<open>pre\<close>
  coerces and \<open>x\<close> does not, the typed-array accessor of each of the six shapes returns the
  error of \<open>x\<close>, next to the coerced \<open>pre\<close>, what came with the error, and a zero value for
  each element of \<open>post\<close>: nothing of \<open>post\<close> but its length is in the result, not even for
  an element whose coercion would abort.
\<close>

theorem typed_array_stops_at_first_failure:
  assumes "Array j s = Return (pre @ x # post, None)"
  shows "(coercesTo stringFromInterface pre ysS \<and> stringFromInterface x = Return (vS, Some eS) \<longrightarrow>
            ArrayOfStrings j s = Return (ysS @ vS # replicate (length post) [], Some eS))
       \<and> (coercesTo intFromInterface pre ysI \<and> intFromInterface x = Return (vI, Some eI) \<longrightarrow>
            ArrayOfInts j s = Return (ysI @ vI # replicate (length post) 0, Some eI))
       \<and> (coercesTo (floatFromInterface fo) pre ysF
            \<and> floatFromInterface fo x = Return (vF, Some eF) \<longrightarrow>
            ArrayOfFloats fo j s = Return (ysF @ vF # replicate (length post) 0, Some eF))
       \<and> (coercesTo boolFromInterface pre ysB \<and> boolFromInterface x = Return (vB, Some eB) \<longrightarrow>
            ArrayOfBools j s = Return (ysB @ vB # replicate (length post) False, Some eB))
       \<and> (coercesTo objectFromInterface pre ysO \<and> objectFromInterface x = Return (vO, Some eO) \<longrightarrow>
            ArrayOfObjects j s = Return (ysO @ vO # replicate (length post) Map.empty, Some eO))
       \<and> (coercesTo arrayFromInterface pre ysA \<and> arrayFromInterface x = Return (vA, Some eA) \<longrightarrow>
            ArrayOfArrays j s = Return (ysA @ vA # replicate (length post) [], Some eA))"
  using assms
  by (simp add: array_accessor_defs coerceEach_fails
      del: replicate.simps length_append list.size)

text \<open>
  C6 on \<open>[1, "x", 3]\<close> as the decoder yields it: array-of-integer fails at index 1, with
  \<open>[1, 0, 0]\<close> next to the error.
\<close>

theorem typed_array_stops_at_first_failure_witness:
  "Array (NewQuery (VArray [VFloat64 0x3FF0000000000000, VString ''x'', VFloat64 0x4008000000000000])) []
     = Return ([VFloat64 0x3FF0000000000000] @ VString ''x'' # [VFloat64 0x4008000000000000], None)
   \<and> coercesTo intFromInterface [VFloat64 0x3FF0000000000000] [1]
   \<and> intFromInterface (VString ''x'') = Return (0, Some (TypeMismatch ''Int'' (VString ''x'')))
   \<and> ArrayOfInts
        (NewQuery (VArray [VFloat64 0x3FF0000000000000, VString ''x'', VFloat64 0x4008000000000000])) []
       = Return ([1, 0, 0], Some (TypeMismatch ''Int'' (VString ''x'')))"
proof -
  have a: "Array (NewQuery (VArray [VFloat64 0x3FF0000000000000, VString ''x'', VFloat64 0x4008000000000000])) []
     = Return ([VFloat64 0x3FF0000000000000] @ VString ''x'' # [VFloat64 0x4008000000000000], None)"
    by (simp add: Array_def NewQuery_def rquery_def terms_of_def)
  have one: "int64_of_float64 0x3FF0000000000000 = 1"
    by (simp add: int64_of_float64_def Let_def int64_indefinite_def bit_numeral_word_iff drop_bit_eq_div take_bit_eq_mod)
  have p: "coercesTo intFromInterface [VFloat64 0x3FF0000000000000] [1]"
    by (simp add: coercesTo_def one)
  have x: "intFromInterface (VString ''x'') = Return (0, Some (TypeMismatch ''Int'' (VString ''x'')))"
    by (simp add: parse_defs)
  show ?thesis
    using typed_array_stops_at_first_failure [OF a, where ysI = "[1]" and vI = 0
        and eI = "TypeMismatch ''Int'' (VString ''x'')"] a p x
    by simp
qed

subsection \<open>A path string and its segments\<close>

text \<open>
  C4, as the code has it. A single path string that contains \<open>.\<close>, \<open>[\<close> or \<open>]\<close> resolves as
  the sequence of its tokens does (the string split at every run of the three characters,
  empty tokens dropped): the same value, or the same error, except that a NilValue error
  names the whole path string where the sequence form names its last segment (\<open>atSegment\<close>
  changes nothing else: \<open>atSegment_value\<close>, \<open>atSegment_kind\<close>). This holds whenever there is
  at least one token or the root is not null.
\<close>

theorem string_path_as_segments:
  assumes "IndexAny p ''.[]'' \<noteq> - 1"
    and "FieldsFunc p isDelim \<noteq> [] \<or> b \<noteq> VNil"
  shows "rquery b (FieldsFunc p isDelim)
         = atSegment (last (FieldsFunc p isDelim)) (rquery b [p])"
proof -
  let ?ts = "FieldsFunc p isDelim"
  have single: "terms_of [p] = ?ts" using assms(1) by (simp add: terms_of_def)
  have split: "terms_of ?ts = ?ts" by (rule terms_of_tokens)
  show ?thesis
  proof (cases "walk b ?ts")
    case (Panic x)
    then show ?thesis by (simp add: rquery_def single split)
  next
    case (Return r)
    obtain v e where r: "r = (v, e)" by (cases r)
    show ?thesis
    proof (cases e)
      case (Some err)
      with Return r have "\<forall>u. err \<noteq> NilValue u"
        using walk_error_kinds [of b ?ts v err] by blast
      with Some Return r show ?thesis
        by (cases err) (auto simp add: rquery_def single split)
    next
      case None
      show ?thesis
      proof (cases "v = VNil")
        case True
        with None Return r assms(2) have "?ts \<noteq> []" by auto
        with True None Return r show ?thesis by (simp add: rquery_def single split)
      next
        case False
        with None Return r show ?thesis by (cases v) (simp_all add: rquery_def single split)
      qed
    qed
  qed
qed

text \<open>
  C4 on \<open>a.b[2]\<close> and the segments \<open>a\<close>, \<open>b\<close>, \<open>2\<close>, for a tree whose \<open>a.b[2]\<close> is not
  null: the two forms give the same result.
\<close>

theorem string_path_as_segments_witness:
  "IndexAny ''a.b[2]'' ''.[]'' \<noteq> - 1
   \<and> FieldsFunc ''a.b[2]'' isDelim = [''a'', ''b'', ''2'']
   \<and> rquery (VObject [''a'' \<mapsto> VObject [''b'' \<mapsto>
        VArray [VFloat64 0x3FF0000000000000, VFloat64 0x4000000000000000, VBool True]]])
        [''a'', ''b'', ''2'']
     = rquery (VObject [''a'' \<mapsto> VObject [''b'' \<mapsto>
        VArray [VFloat64 0x3FF0000000000000, VFloat64 0x4000000000000000, VBool True]]])
        [''a.b[2]'']"
proof -
  have i: "IndexAny ''a.b[2]'' ''.[]'' \<noteq> - 1" by (simp add: IndexAny_def)
  have f: "FieldsFunc ''a.b[2]'' isDelim = [''a'', ''b'', ''2'']"
    by (simp add: FieldsFunc_def isDelim_def)
  have n: "FieldsFunc ''a.b[2]'' isDelim \<noteq> []
           \<or> VObject [''a'' \<mapsto> VObject [''b'' \<mapsto>
        VArray [VFloat64 0x3FF0000000000000, VFloat64 0x4000000000000000, VBool True]]] \<noteq> VNil"
    by simp
  have r: "rquery (VObject [''a'' \<mapsto> VObject [''b'' \<mapsto>
        VArray [VFloat64 0x3FF0000000000000, VFloat64 0x4000000000000000, VBool True]]])
        [''a.b[2]''] = Return (VBool True, None)"
    by (simp add: path_defs parse_defs)
  show ?thesis
    using string_path_as_segments [OF i n] i f r by simp
qed

text \<open>
  C4 as stated fails on a tree whose \<open>a.b[2]\<close> is null: both forms fail with NilValue, the
  string form at \<open>a.b[2]\<close> and the sequence form at \<open>2\<close>.
\<close>

theorem string_path_counterexample:
  "rquery (VObject [''a'' \<mapsto> VObject [''b'' \<mapsto>
        VArray [VFloat64 0x3FF0000000000000, VFloat64 0x4000000000000000, VNil]]]) [''a.b[2]'']
     = Return (VNil, Some (NilValue ''a.b[2]''))
   \<and> rquery (VObject [''a'' \<mapsto> VObject [''b'' \<mapsto>
        VArray [VFloat64 0x3FF0000000000000, VFloat64 0x4000000000000000, VNil]]])
        [''a'', ''b'', ''2'']
     = Return (VNil, Some (NilValue ''2''))
   \<and> rquery (VObject [''a'' \<mapsto> VObject [''b'' \<mapsto>
        VArray [VFloat64 0x3FF0000000000000, VFloat64 0x4000000000000000, VNil]]]) [''a.b[2]'']
     \<noteq> rquery (VObject [''a'' \<mapsto> VObject [''b'' \<mapsto>
        VArray [VFloat64 0x3FF0000000000000, VFloat64 0x4000000000000000, VNil]]])
        [''a'', ''b'', ''2'']"
  by (simp add: path_defs parse_defs)

subsection \<open>The inline accessors: panic or a value\<close>

text \<open>
  C2, as the code has it. When the fallible accessor returns an error \<open>e\<close>, the inline
  accessor of the \<open>As\<close> family panics with \<open>e\<close> exactly when the flag of the context is set,
  and otherwise returns a value without raising.
  \<^item> For the boolean, float, string, mapping, sequence and generic shapes that value is
    false, 0, the empty string, the empty mapping, the empty sequence or nil.
  \<^item> For the two integer shapes it is 0, unless the error is the range error of a
    \<^verbatim>\<open>json.Number\<close>; nothing more is said of that case.
  \<^item> For the typed arrays and the matrix it is empty when the sequence itself could not be
    had. Otherwise the sequence is \<open>pre @ x # post\<close>, with \<open>x\<close> the first element whose
    coercion fails, and the value has the coerced elements of \<open>pre\<close>, then the slot of \<open>x\<close>,
    then one zero value for each element of \<open>post\<close>. The slot of \<open>x\<close> holds the zero value
    as well, unless \<open>x\<close> is a \<^verbatim>\<open>json.Number\<close> that \<^verbatim>\<open>strconv\<close> rejects (for the
    integers: rejects as out of range); nothing more is said of that case.

  MustQuery panics on every error, whatever the flag. A sub-query made by Query, MustQuery
  or ArrayOfQuery has the flag of the context it came from.
\<close>

theorem inline_accessor_policy:
  "(Bool j s = Return (vb, Some e) \<longrightarrow>
      AsBool j s = (if SingleValuePanicOnError j then Panic (ErrorPanic e) else Return False))
   \<and> (Float fo j s = Return (vf, Some e) \<longrightarrow>
      AsFloat fo j s = (if SingleValuePanicOnError j then Panic (ErrorPanic e) else Return 0))
   \<and> (String j s = Return (vs, Some e) \<longrightarrow>
      AsString j s = (if SingleValuePanicOnError j then Panic (ErrorPanic e) else Return []))
   \<and> (Object j s = Return (vo, Some e) \<longrightarrow>
      AsObject j s = (if SingleValuePanicOnError j then Panic (ErrorPanic e) else Return Map.empty))
   \<and> (Array j s = Return (va, Some e) \<longrightarrow>
      AsArray j s = (if SingleValuePanicOnError j then Panic (ErrorPanic e) else Return []))
   \<and> (Interface j s = Return (vx, Some e) \<longrightarrow>
      AsInterface j s = (if SingleValuePanicOnError j then Panic (ErrorPanic e) else Return VNil))
   \<and> (Int' j s = Return (vi, Some e) \<longrightarrow>
      AsInt j s = (if SingleValuePanicOnError j then Panic (ErrorPanic e) else Return vi)
      \<and> ((\<forall>t. e \<noteq> NumError t ErrRange) \<longrightarrow> vi = 0))
   \<and> (Int64 j s = Return (vl, Some e) \<longrightarrow>
      AsInt64 j s = (if SingleValuePanicOnError j then Panic (ErrorPanic e) else Return vl)
      \<and> ((\<forall>t. e \<noteq> NumError t ErrRange) \<longrightarrow> vl = 0))
   \<and> (ArrayOfStrings j s = Return (ss, Some e) \<longrightarrow>
      AsArrayOfStrings j s = (if SingleValuePanicOnError j then Panic (ErrorPanic e) else Return ss)
      \<and> ((Array j s = Return ([], Some e) \<and> ss = [])
           \<or> (\<exists>pre x post ys. Array j s = Return (pre @ x # post, None)
                 \<and> coercesTo stringFromInterface pre ys
                 \<and> stringFromInterface x = Return ([], Some e)
                 \<and> ss = ys @ replicate (Suc (length post)) [])))
   \<and> (ArrayOfInts j s = Return (is, Some e) \<longrightarrow>
      AsArrayOfInts j s = (if SingleValuePanicOnError j then Panic (ErrorPanic e) else Return is)
      \<and> ((Array j s = Return ([], Some e) \<and> is = [])
           \<or> (\<exists>pre x post ys v. Array j s = Return (pre @ x # post, None)
                 \<and> coercesTo intFromInterface pre ys
                 \<and> intFromInterface x = Return (v, Some e)
                 \<and> is = ys @ v # replicate (length post) 0
                 \<and> ((\<forall>t. e \<noteq> NumError t ErrRange) \<longrightarrow> v = 0))))
   \<and> (ArrayOfFloats fo j s = Return (fs, Some e) \<longrightarrow>
      AsArrayOfFloats fo j s = (if SingleValuePanicOnError j then Panic (ErrorPanic e) else Return fs)
      \<and> ((Array j s = Return ([], Some e) \<and> fs = [])
           \<or> (\<exists>pre x post ys v. Array j s = Return (pre @ x # post, None)
                 \<and> coercesTo (floatFromInterface fo) pre ys
                 \<and> floatFromInterface fo x = Return (v, Some e)
                 \<and> fs = ys @ v # replicate (length post) 0
                 \<and> ((\<forall>t ne. e \<noteq> NumError t ne) \<longrightarrow> v = 0))))
   \<and> (ArrayOfBools j s = Return (bs, Some e) \<longrightarrow>
      AsArrayOfBools j s = (if SingleValuePanicOnError j then Panic (ErrorPanic e) else Return bs)
      \<and> ((Array j s = Return ([], Some e) \<and> bs = [])
           \<or> (\<exists>pre x post ys. Array j s = Return (pre @ x # post, None)
                 \<and> coercesTo boolFromInterface pre ys
                 \<and> boolFromInterface x = Return (False, Some e)
                 \<and> bs = ys @ replicate (Suc (length post)) False)))
   \<and> (ArrayOfObjects j s = Return (os, Some e) \<longrightarrow>
      AsArrayOfObjects j s = (if SingleValuePanicOnError j then Panic (ErrorPanic e) else Return os)
      \<and> ((Array j s = Return ([], Some e) \<and> os = [])
           \<or> (\<exists>pre x post ys. Array j s = Return (pre @ x # post, None)
                 \<and> coercesTo objectFromInterface pre ys
                 \<and> objectFromInterface x = Return (Map.empty, Some e)
                 \<and> os = ys @ replicate (Suc (length post)) Map.empty)))
   \<and> (ArrayOfArrays j s = Return (as, Some e) \<longrightarrow>
      AsArrayOfArrays j s = (if SingleValuePanicOnError j then Panic (ErrorPanic e) else Return as)
      \<and> ((Array j s = Return ([], Some e) \<and> as = [])
           \<or> (\<exists>pre x post ys. Array j s = Return (pre @ x # post, None)
                 \<and> coercesTo arrayFromInterface pre ys
                 \<and> arrayFromInterface x = Return ([], Some e)
                 \<and> as = ys @ replicate (Suc (length post)) [])))
   \<and> (Matrix2D j s = Return (ms, Some e) \<longrightarrow>
      AsMatrix2D j s = (if SingleValuePanicOnError j then Panic (ErrorPanic e) else Return ms)
      \<and> ((Array j s = Return ([], Some e) \<and> ms = [])
           \<or> (\<exists>pre x post ys. Array j s = Return (pre @ x # post, None)
                 \<and> coercesTo arrayFromInterface pre ys
                 \<and> arrayFromInterface x = Return ([], Some e)
                 \<and> ms = ys @ replicate (Suc (length post)) [])))
   \<and> (Object j s = Return (vq, Some e) \<longrightarrow> MustQuery j s = Panic (ErrorPanic e))
   \<and> (Query j s = Return (Some j1, None) \<longrightarrow>
      SingleValuePanicOnError j1 = SingleValuePanicOnError j)
   \<and> (MustQuery j s = Return j3 \<longrightarrow>
      SingleValuePanicOnError j3 = SingleValuePanicOnError j)
   \<and> (ArrayOfQuery j s = Return (js, None) \<longrightarrow>
      (\<forall>j2\<in>set js. SingleValuePanicOnError j2 = SingleValuePanicOnError j))"
proof -
  have c0: "(Bool j s = Return (vb, Some e) \<longrightarrow>
      AsBool j s = (if SingleValuePanicOnError j then Panic (ErrorPanic e) else Return False))"
    using Bool_error_value [of j s vb e] by (auto simp: AsBool_def)
  have c1: "(Float fo j s = Return (vf, Some e) \<longrightarrow>
      AsFloat fo j s = (if SingleValuePanicOnError j then Panic (ErrorPanic e) else Return 0))"
    by (simp add: AsFloat_def)
  have c2: "(String j s = Return (vs, Some e) \<longrightarrow>
      AsString j s = (if SingleValuePanicOnError j then Panic (ErrorPanic e) else Return []))"
    using String_error_value [of j s vs e] by (auto simp: AsString_def)
  have c3: "(Object j s = Return (vo, Some e) \<longrightarrow>
      AsObject j s = (if SingleValuePanicOnError j then Panic (ErrorPanic e) else Return Map.empty))"
    using Object_error_value [of j s vo e] by (auto simp: AsObject_def)
  have c4: "(Array j s = Return (va, Some e) \<longrightarrow>
      AsArray j s = (if SingleValuePanicOnError j then Panic (ErrorPanic e) else Return []))"
    using Array_error_value [of j s va e] by (auto simp: AsArray_def)
  have c5: "(Interface j s = Return (vx, Some e) \<longrightarrow>
      AsInterface j s = (if SingleValuePanicOnError j then Panic (ErrorPanic e) else Return VNil))"
    using Interface_error_value [of j s vx e] by (auto simp: AsInterface_def)
  have c6: "(Int' j s = Return (vi, Some e) \<longrightarrow>
      AsInt j s = (if SingleValuePanicOnError j then Panic (ErrorPanic e) else Return vi)
      \<and> ((\<forall>t. e \<noteq> NumError t ErrRange) \<longrightarrow> vi = 0))"
    using Int_error_value [of j s vi e] by (auto simp: AsInt_def)
  have c7: "(Int64 j s = Return (vl, Some e) \<longrightarrow>
      AsInt64 j s = (if SingleValuePanicOnError j then Panic (ErrorPanic e) else Return vl)
      \<and> ((\<forall>t. e \<noteq> NumError t ErrRange) \<longrightarrow> vl = 0))"
    using Int64_error_value [of j s vl e] by (auto simp: AsInt64_def)
  have c8: "(ArrayOfStrings j s = Return (ss, Some e) \<longrightarrow>
      AsArrayOfStrings j s = (if SingleValuePanicOnError j then Panic (ErrorPanic e) else Return ss)
      \<and> ((Array j s = Return ([], Some e) \<and> ss = [])
           \<or> (\<exists>pre x post ys. Array j s = Return (pre @ x # post, None)
                 \<and> coercesTo stringFromInterface pre ys
                 \<and> stringFromInterface x = Return ([], Some e)
                 \<and> ss = ys @ replicate (Suc (length post)) [])))"
  proof
    assume h: "ArrayOfStrings j s = Return (ss, Some e)"
    have "AsArrayOfStrings j s = (if SingleValuePanicOnError j then Panic (ErrorPanic e) else Return ss)"
      using h by (simp add: AsArrayOfStrings_def)
    moreover have "((Array j s = Return ([], Some e) \<and> ss = [])
           \<or> (\<exists>pre x post ys. Array j s = Return (pre @ x # post, None)
                 \<and> coercesTo stringFromInterface pre ys
                 \<and> stringFromInterface x = Return ([], Some e)
                 \<and> ss = ys @ replicate (Suc (length post)) []))"
      using h unfolding ArrayOfStrings_def by (rule typed_array_zero_slot) (rule stringFromInterface_error_value)
    ultimately show "AsArrayOfStrings j s = (if SingleValuePanicOnError j then Panic (ErrorPanic e) else Return ss)
      \<and> ((Array j s = Return ([], Some e) \<and> ss = [])
           \<or> (\<exists>pre x post ys. Array j s = Return (pre @ x # post, None)
                 \<and> coercesTo stringFromInterface pre ys
                 \<and> stringFromInterface x = Return ([], Some e)
                 \<and> ss = ys @ replicate (Suc (length post)) []))"
      by (rule conjI)
  qed
  have c9: "(ArrayOfInts j s = Return (is, Some e) \<longrightarrow>
      AsArrayOfInts j s = (if SingleValuePanicOnError j then Panic (ErrorPanic e) else Return is)
      \<and> ((Array j s = Return ([], Some e) \<and> is = [])
           \<or> (\<exists>pre x post ys v. Array j s = Return (pre @ x # post, None)
                 \<and> coercesTo intFromInterface pre ys
                 \<and> intFromInterface x = Return (v, Some e)
                 \<and> is = ys @ v # replicate (length post) 0
                 \<and> ((\<forall>t. e \<noteq> NumError t ErrRange) \<longrightarrow> v = 0))))"
  proof
    assume h: "ArrayOfInts j s = Return (is, Some e)"
    have "AsArrayOfInts j s = (if SingleValuePanicOnError j then Panic (ErrorPanic e) else Return is)"
      using h by (simp add: AsArrayOfInts_def)
    moreover have "((Array j s = Return ([], Some e) \<and> is = [])
           \<or> (\<exists>pre x post ys v. Array j s = Return (pre @ x # post, None)
                 \<and> coercesTo intFromInterface pre ys
                 \<and> intFromInterface x = Return (v, Some e)
                 \<and> is = ys @ v # replicate (length post) 0
                 \<and> ((\<forall>t. e \<noteq> NumError t ErrRange) \<longrightarrow> v = 0)))"
      using h unfolding ArrayOfInts_def by (rule typed_array_slot) (rule intFromInterface_error_zero)
    ultimately show "AsArrayOfInts j s = (if SingleValuePanicOnError j then Panic (ErrorPanic e) else Return is)
      \<and> ((Array j s = Return ([], Some e) \<and> is = [])
           \<or> (\<exists>pre x post ys v. Array j s = Return (pre @ x # post, None)
                 \<and> coercesTo intFromInterface pre ys
                 \<and> intFromInterface x = Return (v, Some e)
                 \<and> is = ys @ v # replicate (length post) 0
                 \<and> ((\<forall>t. e \<noteq> NumError t ErrRange) \<longrightarrow> v = 0)))"
      by (rule conjI)
  qed
  have c10: "(ArrayOfFloats fo j s = Return (fs, Some e) \<longrightarrow>
      AsArrayOfFloats fo j s = (if SingleValuePanicOnError j then Panic (ErrorPanic e) else Return fs)
      \<and> ((Array j s = Return ([], Some e) \<and> fs = [])
           \<or> (\<exists>pre x post ys v. Array j s = Return (pre @ x # post, None)
                 \<and> coercesTo (floatFromInterface fo) pre ys
                 \<and> floatFromInterface fo x = Return (v, Some e)
                 \<and> fs = ys @ v # replicate (length post) 0
                 \<and> ((\<forall>t ne. e \<noteq> NumError t ne) \<longrightarrow> v = 0))))"
  proof
    assume h: "ArrayOfFloats fo j s = Return (fs, Some e)"
    have "AsArrayOfFloats fo j s = (if SingleValuePanicOnError j then Panic (ErrorPanic e) else Return fs)"
      using h by (simp add: AsArrayOfFloats_def)
    moreover have "((Array j s = Return ([], Some e) \<and> fs = [])
           \<or> (\<exists>pre x post ys v. Array j s = Return (pre @ x # post, None)
                 \<and> coercesTo (floatFromInterface fo) pre ys
                 \<and> floatFromInterface fo x = Return (v, Some e)
                 \<and> fs = ys @ v # replicate (length post) 0
                 \<and> ((\<forall>t ne. e \<noteq> NumError t ne) \<longrightarrow> v = 0)))"
      using h unfolding ArrayOfFloats_def by (rule typed_array_slot) (rule floatFromInterface_error_value)
    ultimately show "AsArrayOfFloats fo j s = (if SingleValuePanicOnError j then Panic (ErrorPanic e) else Return fs)
      \<and> ((Array j s = Return ([], Some e) \<and> fs = [])
           \<or> (\<exists>pre x post ys v. Array j s = Return (pre @ x # post, None)
                 \<and> coercesTo (floatFromInterface fo) pre ys
                 \<and> floatFromInterface fo x = Return (v, Some e)
                 \<and> fs = ys @ v # replicate (length post) 0
                 \<and> ((\<forall>t ne. e \<noteq> NumError t ne) \<longrightarrow> v = 0)))"
      by (rule conjI)
  qed
  have c11: "(ArrayOfBools j s = Return (bs, Some e) \<longrightarrow>
      AsArrayOfBools j s = (if SingleValuePanicOnError j then Panic (ErrorPanic e) else Return bs)
      \<and> ((Array j s = Return ([], Some e) \<and> bs = [])
           \<or> (\<exists>pre x post ys. Array j s = Return (pre @ x # post, None)
                 \<and> coercesTo boolFromInterface pre ys
                 \<and> boolFromInterface x = Return (False, Some e)
                 \<and> bs = ys @ replicate (Suc (length post)) False)))"
  proof
    assume h: "ArrayOfBools j s = Return (bs, Some e)"
    have "AsArrayOfBools j s = (if SingleValuePanicOnError j then Panic (ErrorPanic e) else Return bs)"
      using h by (simp add: AsArrayOfBools_def)
    moreover have "((Array j s = Return ([], Some e) \<and> bs = [])
           \<or> (\<exists>pre x post ys. Array j s = Return (pre @ x # post, None)
                 \<and> coercesTo boolFromInterface pre ys
                 \<and> boolFromInterface x = Return (False, Some e)
                 \<and> bs = ys @ replicate (Suc (length post)) False))"
      using h unfolding ArrayOfBools_def by (rule typed_array_zero_slot) (rule boolFromInterface_error_value)
    ultimately show "AsArrayOfBools j s = (if SingleValuePanicOnError j then Panic (ErrorPanic e) else Return bs)
      \<and> ((Array j s = Return ([], Some e) \<and> bs = [])
           \<or> (\<exists>pre x post ys. Array j s = Return (pre @ x # post, None)
                 \<and> coercesTo boolFromInterface pre ys
                 \<and> boolFromInterface x = Return (False, Some e)
                 \<and> bs = ys @ replicate (Suc (length post)) False))"
      by (rule conjI)
  qed
  have c12: "(ArrayOfObjects j s = Return (os, Some e) \<longrightarrow>
      AsArrayOfObjects j s = (if SingleValuePanicOnError j then Panic (ErrorPanic e) else Return os)
      \<and> ((Array j s = Return ([], Some e) \<and> os = [])
           \<or> (\<exists>pre x post ys. Array j s = Return (pre @ x # post, None)
                 \<and> coercesTo objectFromInterface pre ys
                 \<and> objectFromInterface x = Return (Map.empty, Some e)
                 \<and> os = ys @ replicate (Suc (length post)) Map.empty)))"
  proof
    assume h: "ArrayOfObjects j s = Return (os, Some e)"
    have "AsArrayOfObjects j s = (if SingleValuePanicOnError j then Panic (ErrorPanic e) else Return os)"
      using h by (simp add: AsArrayOfObjects_def)
    moreover have "((Array j s = Return ([], Some e) \<and> os = [])
           \<or> (\<exists>pre x post ys. Array j s = Return (pre @ x # post, None)
                 \<and> coercesTo objectFromInterface pre ys
                 \<and> objectFromInterface x = Return (Map.empty, Some e)
                 \<and> os = ys @ replicate (Suc (length post)) Map.empty))"
      using h unfolding ArrayOfObjects_def by (rule typed_array_zero_slot) (rule objectFromInterface_error_value)
    ultimately show "AsArrayOfObjects j s = (if SingleValuePanicOnError j then Panic (ErrorPanic e) else Return os)
      \<and> ((Array j s = Return ([], Some e) \<and> os = [])
           \<or> (\<exists>pre x post ys. Array j s = Return (pre @ x # post, None)
                 \<and> coercesTo objectFromInterface pre ys
                 \<and> objectFromInterface x = Return (Map.empty, Some e)
                 \<and> os = ys @ replicate (Suc (length post)) Map.empty))"
      by (rule conjI)
  qed
  have c13: "(ArrayOfArrays j s = Return (as, Some e) \<longrightarrow>
      AsArrayOfArrays j s = (if SingleValuePanicOnError j then Panic (ErrorPanic e) else Return as)
      \<and> ((Array j s = Return ([], Some e) \<and> as = [])
           \<or> (\<exists>pre x post ys. Array j s = Return (pre @ x # post, None)
                 \<and> coercesTo arrayFromInterface pre ys
                 \<and> arrayFromInterface x = Return ([], Some e)
                 \<and> as = ys @ replicate (Suc (length post)) [])))"
  proof
    assume h: "ArrayOfArrays j s = Return (as, Some e)"
    have "AsArrayOfArrays j s = (if SingleValuePanicOnError j then Panic (ErrorPanic e) else Return as)"
      using h by (simp add: AsArrayOfArrays_def)
    moreover have "((Array j s = Return ([], Some e) \<and> as = [])
           \<or> (\<exists>pre x post ys. Array j s = Return (pre @ x # post, None)
                 \<and> coercesTo arrayFromInterface pre ys
                 \<and> arrayFromInterface x = Return ([], Some e)
                 \<and> as = ys @ replicate (Suc (length post)) []))"
      using h unfolding ArrayOfArrays_def by (rule typed_array_zero_slot) (rule arrayFromInterface_error_value)
    ultimately show "AsArrayOfArrays j s = (if SingleValuePanicOnError j then Panic (ErrorPanic e) else Return as)
      \<and> ((Array j s = Return ([], Some e) \<and> as = [])
           \<or> (\<exists>pre x post ys. Array j s = Return (pre @ x # post, None)
                 \<and> coercesTo arrayFromInterface pre ys
                 \<and> arrayFromInterface x = Return ([], Some e)
                 \<and> as = ys @ replicate (Suc (length post)) []))"
      by (rule conjI)
  qed
  have c14: "(Matrix2D j s = Return (ms, Some e) \<longrightarrow>
      AsMatrix2D j s = (if SingleValuePanicOnError j then Panic (ErrorPanic e) else Return ms)
      \<and> ((Array j s = Return ([], Some e) \<and> ms = [])
           \<or> (\<exists>pre x post ys. Array j s = Return (pre @ x # post, None)
                 \<and> coercesTo arrayFromInterface pre ys
                 \<and> arrayFromInterface x = Return ([], Some e)
                 \<and> ms = ys @ replicate (Suc (length post)) [])))"
  proof
    assume h: "Matrix2D j s = Return (ms, Some e)"
    have "AsMatrix2D j s = (if SingleValuePanicOnError j then Panic (ErrorPanic e) else Return ms)"
      using h by (simp add: AsMatrix2D_def AsArrayOfArrays_def Matrix2D_def)
    moreover have "((Array j s = Return ([], Some e) \<and> ms = [])
           \<or> (\<exists>pre x post ys. Array j s = Return (pre @ x # post, None)
                 \<and> coercesTo arrayFromInterface pre ys
                 \<and> arrayFromInterface x = Return ([], Some e)
                 \<and> ms = ys @ replicate (Suc (length post)) []))"
      using h unfolding Matrix2D_def ArrayOfArrays_def by (rule typed_array_zero_slot) (rule arrayFromInterface_error_value)
    ultimately show "AsMatrix2D j s = (if SingleValuePanicOnError j then Panic (ErrorPanic e) else Return ms)
      \<and> ((Array j s = Return ([], Some e) \<and> ms = [])
           \<or> (\<exists>pre x post ys. Array j s = Return (pre @ x # post, None)
                 \<and> coercesTo arrayFromInterface pre ys
                 \<and> arrayFromInterface x = Return ([], Some e)
                 \<and> ms = ys @ replicate (Suc (length post)) []))"
      by (rule conjI)
  qed
  have c15: "(Object j s = Return (vq, Some e) \<longrightarrow> MustQuery j s = Panic (ErrorPanic e))"
    by (simp add: MustQuery_def)
  have c16: "(Query j s = Return (Some j1, None) \<longrightarrow>
      SingleValuePanicOnError j1 = SingleValuePanicOnError j)"
    by (cases "Object j s") (auto simp: Query_def split: option.splits)
  have c17: "(MustQuery j s = Return j3 \<longrightarrow>
      SingleValuePanicOnError j3 = SingleValuePanicOnError j)"
    by (cases "Object j s") (auto simp: MustQuery_def split: option.splits)
  have c18: "(ArrayOfQuery j s = Return (js, None) \<longrightarrow>
      (\<forall>j2\<in>set js. SingleValuePanicOnError j2 = SingleValuePanicOnError j))"
    by (cases "Array j s") (auto simp: ArrayOfQuery_def wrapEach_def split: option.splits)
  show ?thesis
    by (intro conjI c0 c1 c2 c3 c4 c5 c6 c7 c8 c9 c10 c11 c12 c13 c14 c15 c16 c17 c18)
qed

text \<open>
  C2 on the string \<open>"x"\<close> asked for as a boolean, as an integer and as a sub-query, and
  on the sequence \<open>[true, "x", true]\<close> asked for as an array of booleans, in a context with
  the flag set and in one without; MustQuery on an empty mapping hands the flag on.
\<close>

theorem inline_accessor_policy_witness:
  "Bool \<lparr>blob = VString ''x'', SingleValuePanicOnError = True\<rparr> []
     = Return (False, Some (TypeMismatch ''Bool'' (VString ''x'')))
   \<and> AsBool \<lparr>blob = VString ''x'', SingleValuePanicOnError = True\<rparr> []
     = Panic (ErrorPanic (TypeMismatch ''Bool'' (VString ''x'')))
   \<and> Bool (NewQuery (VString ''x'')) []
     = Return (False, Some (TypeMismatch ''Bool'' (VString ''x'')))
   \<and> AsBool (NewQuery (VString ''x'')) [] = Return False
   \<and> Int' (NewQuery (VString ''x'')) []
     = Return (0, Some (TypeMismatch ''Int'' (VString ''x'')))
   \<and> AsInt (NewQuery (VString ''x'')) [] = Return 0
   \<and> ArrayOfBools (NewQuery (VArray [VBool True, VString ''x'', VBool True])) []
     = Return ([True, False, False], Some (TypeMismatch ''Bool'' (VString ''x'')))
   \<and> AsArrayOfBools (NewQuery (VArray [VBool True, VString ''x'', VBool True])) []
     = Return [True, False, False]
   \<and> ArrayOfBools
       \<lparr>blob = VArray [VBool True, VString ''x'', VBool True], SingleValuePanicOnError = True\<rparr> []
     = Return ([True, False, False], Some (TypeMismatch ''Bool'' (VString ''x'')))
   \<and> AsArrayOfBools
       \<lparr>blob = VArray [VBool True, VString ''x'', VBool True], SingleValuePanicOnError = True\<rparr> []
     = Panic (ErrorPanic (TypeMismatch ''Bool'' (VString ''x'')))
   \<and> Object (NewQuery (VString ''x'')) []
     = Return (Map.empty, Some (TypeMismatch ''Object'' (VString ''x'')))
   \<and> MustQuery (NewQuery (VString ''x'')) []
     = Panic (ErrorPanic (TypeMismatch ''Object'' (VString ''x'')))
   \<and> MustQuery \<lparr>blob = VObject Map.empty, SingleValuePanicOnError = True\<rparr> []
     = Return \<lparr>blob = VObject Map.empty, SingleValuePanicOnError = True\<rparr>"
proof -
  have r: "rquery (VString ''x'') [] = Return (VString ''x'', None)"
    by (simp add: rquery_def terms_of_def)
  have ra: "rquery (VArray [VBool True, VString ''x'', VBool True]) []
            = Return (VArray [VBool True, VString ''x'', VBool True], None)"
    by (simp add: rquery_def terms_of_def)
  have ro: "rquery (VObject Map.empty) [] = Return (VObject Map.empty, None)"
    by (simp add: rquery_def terms_of_def)
  have b1: "Bool \<lparr>blob = VString ''x'', SingleValuePanicOnError = True\<rparr> []
     = Return (False, Some (TypeMismatch ''Bool'' (VString ''x'')))"
    by (simp add: Bool_def r)
  have b2: "Bool (NewQuery (VString ''x'')) []
     = Return (False, Some (TypeMismatch ''Bool'' (VString ''x'')))"
    by (simp add: Bool_def NewQuery_def r)
  have i: "Int' (NewQuery (VString ''x'')) []
     = Return (0, Some (TypeMismatch ''Int'' (VString ''x'')))"
    by (simp add: Int'_def NewQuery_def r parse_defs)
  have l1: "ArrayOfBools (NewQuery (VArray [VBool True, VString ''x'', VBool True])) []
     = Return ([True, False, False], Some (TypeMismatch ''Bool'' (VString ''x'')))"
    by (simp add: ArrayOfBools_def Array_def NewQuery_def ra)
  have l2: "ArrayOfBools
       \<lparr>blob = VArray [VBool True, VString ''x'', VBool True], SingleValuePanicOnError = True\<rparr> []
     = Return ([True, False, False], Some (TypeMismatch ''Bool'' (VString ''x'')))"
    by (simp add: ArrayOfBools_def Array_def ra)
  have o: "Object (NewQuery (VString ''x'')) []
     = Return (Map.empty, Some (TypeMismatch ''Object'' (VString ''x'')))"
    by (simp add: Object_def NewQuery_def r)
  have m: "MustQuery \<lparr>blob = VObject Map.empty, SingleValuePanicOnError = True\<rparr> []
     = Return \<lparr>blob = VObject Map.empty, SingleValuePanicOnError = True\<rparr>"
    by (simp add: MustQuery_def Object_def ro)
  note p1 = inline_accessor_policy
    [where j = "\<lparr>blob = VString ''x'', SingleValuePanicOnError = True\<rparr>" and s = "[]"
       and vb = False and e = "TypeMismatch ''Bool'' (VString ''x'')"]
  note p2 = inline_accessor_policy
    [where j = "NewQuery (VString ''x'')" and s = "[]"
       and vb = False and e = "TypeMismatch ''Bool'' (VString ''x'')"]
  note p3 = inline_accessor_policy
    [where j = "NewQuery (VString ''x'')" and s = "[]"
       and vq = Map.empty and e = "TypeMismatch ''Object'' (VString ''x'')"]
  note p4 = inline_accessor_policy
    [where j = "NewQuery (VString ''x'')" and s = "[]"
       and vi = 0 and e = "TypeMismatch ''Int'' (VString ''x'')"]
  note p5 = inline_accessor_policy
    [where j = "NewQuery (VArray [VBool True, VString ''x'', VBool True])" and s = "[]"
       and bs = "[True, False, False]" and e = "TypeMismatch ''Bool'' (VString ''x'')"]
  note p6 = inline_accessor_policy
    [where j = "\<lparr>blob = VArray [VBool True, VString ''x'', VBool True],
                 SingleValuePanicOnError = True\<rparr>" and s = "[]"
       and bs = "[True, False, False]" and e = "TypeMismatch ''Bool'' (VString ''x'')"]
  have a1: "AsBool \<lparr>blob = VString ''x'', SingleValuePanicOnError = True\<rparr> []
     = Panic (ErrorPanic (TypeMismatch ''Bool'' (VString ''x'')))"
    using p1 b1 by simp
  have a2: "AsBool (NewQuery (VString ''x'')) [] = Return False"
    using p2 b2 by (simp add: NewQuery_def)
  have a3: "MustQuery (NewQuery (VString ''x'')) []
     = Panic (ErrorPanic (TypeMismatch ''Object'' (VString ''x'')))"
    using p3 o by simp
  have a4: "AsInt (NewQuery (VString ''x'')) [] = Return 0"
    using p4 i by (simp add: NewQuery_def)
  have a5: "AsArrayOfBools (NewQuery (VArray [VBool True, VString ''x'', VBool True])) []
     = Return [True, False, False]"
    using p5 l1 by (simp add: NewQuery_def)
  have a6: "AsArrayOfBools
       \<lparr>blob = VArray [VBool True, VString ''x'', VBool True], SingleValuePanicOnError = True\<rparr> []
     = Panic (ErrorPanic (TypeMismatch ''Bool'' (VString ''x'')))"
    using p6 l2 by simp
  from b1 a1 b2 a2 i a4 l1 a5 l2 a6 o a3 m show ?thesis by (intro conjI)
qed

text \<open>
  C2 as stated fails twice in a context whose flag is off: array-of-integer on
  \<open>[1, "x", 3]\<close> fails and the inline accessor returns \<open>[1, 0, 0]\<close>, not the empty
  sequence; MustQuery on a value that is no mapping panics.
\<close>

theorem inline_accessor_counterexample:
  "SingleValuePanicOnError
      (NewQuery (VArray [VFloat64 0x3FF0000000000000, VString ''x'', VFloat64 0x4008000000000000]))
     = False
   \<and> ArrayOfInts
       (NewQuery (VArray [VFloat64 0x3FF0000000000000, VString ''x'', VFloat64 0x4008000000000000])) []
     = Return ([1, 0, 0], Some (TypeMismatch ''Int'' (VString ''x'')))
   \<and> AsArrayOfInts
       (NewQuery (VArray [VFloat64 0x3FF0000000000000, VString ''x'', VFloat64 0x4008000000000000])) []
     = Return [1, 0, 0]
   \<and> SingleValuePanicOnError (NewQuery (VString ''x'')) = False
   \<and> Object (NewQuery (VString ''x'')) []
     = Return (Map.empty, Some (TypeMismatch ''Object'' (VString ''x'')))
   \<and> MustQuery (NewQuery (VString ''x'')) []
     = Panic (ErrorPanic (TypeMismatch ''Object'' (VString ''x'')))"
proof -
  have one: "int64_of_float64 0x3FF0000000000000 = 1"
    by (simp add: int64_of_float64_def Let_def int64_indefinite_def bit_numeral_word_iff
        drop_bit_eq_div take_bit_eq_mod)
  have arr: "Array
       (NewQuery (VArray [VFloat64 0x3FF0000000000000, VString ''x'', VFloat64 0x4008000000000000])) []
     = Return ([VFloat64 0x3FF0000000000000, VString ''x'', VFloat64 0x4008000000000000], None)"
    by (simp add: Array_def NewQuery_def rquery_def terms_of_def)
  have ints: "ArrayOfInts
       (NewQuery (VArray [VFloat64 0x3FF0000000000000, VString ''x'', VFloat64 0x4008000000000000])) []
     = Return ([1, 0, 0], Some (TypeMismatch ''Int'' (VString ''x'')))"
    by (simp add: ArrayOfInts_def arr one parse_defs)
  have asints: "AsArrayOfInts
       (NewQuery (VArray [VFloat64 0x3FF0000000000000, VString ''x'', VFloat64 0x4008000000000000])) []
     = Return [1, 0, 0]"
    by (simp add: AsArrayOfInts_def ints) (simp add: NewQuery_def)
  have obj: "Object (NewQuery (VString ''x'')) []
     = Return (Map.empty, Some (TypeMismatch ''Object'' (VString ''x'')))"
    by (simp add: Object_def NewQuery_def rquery_def terms_of_def)
  have must: "MustQuery (NewQuery (VString ''x'')) []
     = Panic (ErrorPanic (TypeMismatch ''Object'' (VString ''x'')))"
    by (simp add: MustQuery_def obj)
  have f1: "SingleValuePanicOnError
      (NewQuery (VArray [VFloat64 0x3FF0000000000000, VString ''x'', VFloat64 0x4008000000000000]))
     = False" by (simp add: NewQuery_def)
  have f2: "SingleValuePanicOnError (NewQuery (VString ''x'')) = False" by (simp add: NewQuery_def)
  from f1 ints asints f2 obj must show ?thesis by (intro conjI)
qed

end
